theory Spec2Isabelle
  imports Complex_Main "HOL-Library.Word"
begin

section \<open>Python values and errors\<close>

text \<open>
  The picker tool is Python code on top of PySide2 and Maya. Every exception the
  modelled functions can raise is a value of \<open>py_error\<close>; a function that may
  raise returns \<open>py_error + 'a\<close>, with \<open>Inl\<close> for the exception. Python floats
  are real numbers. The arithmetic on the centres, positions and z values of the items
  of a scene is rounded as Python rounds it (section Double arithmetic); the arithmetic on
  polygon points and on sampled curve points is written as the expression that the code
  evaluates, without its rounding. A float division by zero raises
  \<open>ZeroDivisionError\<close>, as in Python.
\<close>

datatype py_error =
    ZeroDivisionError
  | AttributeError
  | TypeError
  | KeyError
  | ValueError
  | UnboundLocalError
  | FileNotFoundError
  | ParseError

text \<open>
  \<open>then_do\<close> sequences two steps, the second of which runs only when the first
  did not raise. \<open>for_each\<close> is a \<open>for\<close> loop whose body updates the loop's
  state and may raise: the first exception ends the loop.
\<close>

definition then_do :: "py_error + 'a \<Rightarrow> ('a \<Rightarrow> py_error + 'b) \<Rightarrow> py_error + 'b" where
  "then_do r f = (case r of Inl e \<Rightarrow> Inl e | Inr v \<Rightarrow> f v)"

fun for_each :: "('a \<Rightarrow> 's \<Rightarrow> py_error + 's) \<Rightarrow> 'a list \<Rightarrow> 's \<Rightarrow> py_error + 's" where
  "for_each body [] st = Inr st"
| "for_each body (x # xs) st = then_do (body x st) (for_each body xs)"

section \<open>Numbers as text\<close>

text \<open>
  The XML file and the curve sampling hold numbers as text. \<open>format_d\<close> is
  Python's \<open>"%d" % i\<close> (and \<open>"%i"\<close>), \<open>format_02d\<close> is \<open>"%02d" % n\<close> for the
  counters, which start at 1, and \<open>format_f d\<close> is \<open>"%.df" % x\<close> and
  \<open>format(x, ".df")\<close>: the value rounded to \<open>d\<close> decimals, ties to the even
  neighbour, with the sign of \<open>x\<close> kept in front of a result that rounds to zero.
  \<open>py_int\<close> and \<open>py_float\<close> are \<open>int(s)\<close> and \<open>float(s)\<close> on the plain decimal
  notation (an optional sign, digits, for \<open>float\<close> an optional point and more digits);
  they raise \<open>ValueError\<close> on other text. Python reads more notations than that
  (exponents, \<open>inf\<close>, surrounding blanks, underscores); the file written by
  \<open>save_xml_file\<close> never holds them, and no statement below rests on an input being
  rejected.
\<close>

definition digit_char :: "nat \<Rightarrow> char" where
  "digit_char n = ''0123456789'' ! n"

definition digit_val :: "char \<Rightarrow> nat option" where
  "digit_val c = map_of (zip ''0123456789'' [0 ..< 10]) c"

fun str_nat :: "nat \<Rightarrow> string" where
  "str_nat n = (if n < 10 then [digit_char n]
                else str_nat (n div 10) @ [digit_char (n mod 10)])"

declare str_nat.simps [simp del]

fun zfill :: "nat \<Rightarrow> nat \<Rightarrow> string" where
  "zfill 0 n = []"
| "zfill (Suc w) n = zfill w (n div 10) @ [digit_char (n mod 10)]"

fun digits_value :: "nat \<Rightarrow> string \<Rightarrow> nat option" where
  "digits_value acc [] = Some acc"
| "digits_value acc (c # cs) =
     (case digit_val c of
        None \<Rightarrow> None
      | Some d \<Rightarrow> digits_value (10 * acc + d) cs)"

definition round_half_even :: "real \<Rightarrow> int" where
  "round_half_even x =
     (let f = \<lfloor>x\<rfloor>; r = x - of_int f
      in if r < 1 / 2 then f
         else if 1 / 2 < r then f + 1
         else if even f then f else f + 1)"



definition format_f :: "nat \<Rightarrow> real \<Rightarrow> string" where
  "format_f d x =
     (let n = nat (round_half_even (\<bar>x\<bar> * 10 ^ d))
      in (if x < 0 then ''-'' else '''') @
         str_nat (n div 10 ^ d) @ ''.'' @ zfill d (n mod 10 ^ d))"

definition split_sign :: "string \<Rightarrow> bool \<times> string" where
  "split_sign s =
     (case s of
        [] \<Rightarrow> (False, s)
      | c # r \<Rightarrow> if c = CHR ''-'' then (True, r)
                 else if c = CHR ''+'' then (False, r)
                 else (False, s))"

definition py_int :: "string \<Rightarrow> py_error + int" where
  "py_int s =
     (let (neg, body) = split_sign s
      in if body = [] then Inl ValueError
         else case digits_value 0 body of
                None \<Rightarrow> Inl ValueError
              | Some n \<Rightarrow> Inr (if neg then - int n else int n))"

definition py_float :: "string \<Rightarrow> py_error + real" where
  "py_float s =
     (let (neg, body) = split_sign s;
          ip = takeWhile (\<lambda>c. c \<noteq> CHR ''.'') body;
          fp = drop 1 (dropWhile (\<lambda>c. c \<noteq> CHR ''.'') body)
      in if ip = [] \<and> fp = [] then Inl ValueError
         else case (digits_value 0 ip, digits_value 0 fp) of
                (Some a, Some b) \<Rightarrow>
                  Inr ((if neg then - 1 else 1) * (real a + real b / 10 ^ length fp))
              | _ \<Rightarrow> Inl ValueError)"

text \<open>
  \<open>round_dp d x\<close> is the number that \<open>float(format(x, ".df"))\<close> gives back
  (\<open>py_float_format_f\<close> below): \<open>x\<close> rounded to \<open>d\<close> decimals.
\<close>

definition round_dp :: "nat \<Rightarrow> real \<Rightarrow> real" where
  "round_dp d x =
     (if x < 0 then - 1 else 1) * real (nat (round_half_even (\<bar>x\<bar> * 10 ^ d))) / 10 ^ d"

section \<open>Double arithmetic\<close>

text \<open>
  The arithmetic of Python floats is that of IEEE 754 binary64: the exact result,
  rounded by \<open>fl\<close> to the nearest number with a significand of 53 bits, a tie to the
  one with the even significand, the exponent not below that of the subnormal numbers
  (a multiple of \<open>2 powr - 1074\<close>). A result beyond the largest double is \<open>inf\<close> in
  Python; the model has no such value, and the statements below about rounded results
  are about magnitudes below it. \<open>fadd\<close>, \<open>fsub\<close> and \<open>fdiv\<close> are \<open>+\<close>,
  \<open>-\<close> and \<open>/\<close> on floats, and \<open>float_of_int\<close> is the conversion of a Python
  int that takes part in a float operation. A float division is guarded by its caller
  against a zero divisor. The negation of a double is exact.
\<close>

definition fl :: "real \<Rightarrow> real" where
  "fl x =
     (if x = 0 then 0
      else (let e = max (\<lfloor>log 2 \<bar>x\<bar>\<rfloor> - 52) (- 1074)
            in real_of_int (round_half_even (x / 2 powr real_of_int e)) *
               2 powr real_of_int e))"

definition fadd :: "real \<Rightarrow> real \<Rightarrow> real" where
  "fadd a b = fl (a + b)"

definition fsub :: "real \<Rightarrow> real \<Rightarrow> real" where
  "fsub a b = fl (a - b)"

definition fdiv :: "real \<Rightarrow> real \<Rightarrow> real" where
  "fdiv a b = fl (a / b)"

definition float_of_int :: "int \<Rightarrow> real" where
  "float_of_int i = fl (real_of_int i)"

section \<open>Constants of picker_enums.PickerToolEnums\<close>

definition EXPORT_BTN_ATTRS :: "string list" where
  "EXPORT_BTN_ATTRS = [''brush_col'', ''text'', ''pos'', ''set_rect'', ''sel_objs'',
                       ''curr_shape'', ''curr_coords'']"

definition EXPORT_IMG_ATTRS :: "string list" where
  "EXPORT_IMG_ATTRS = [''pos'', ''filepath'']"

definition SHAPES :: "string list" where
  "SHAPES = [''Rounded Rect'', ''Rect'', ''Custom'']"

definition MINIMUM_SIZE :: real where
  "MINIMUM_SIZE = 25"

definition MIRROR_ONS :: "string list" where
  "MIRROR_ONS = [''World'', ''Ref Shape'']"

definition MIRROR_TYPES :: "string list" where
  "MIRROR_TYPES = [''Duplicate'', ''Use Existing'']"

definition XML_BTN_CATEGORY :: string where "XML_BTN_CATEGORY = ''SHAPES''"
definition XML_IMG_CATEGORY :: string where "XML_IMG_CATEGORY = ''IMAGES''"
definition CONFIG_FOLDER :: string where "CONFIG_FOLDER = ''config''"
definition LOST_IMAGE :: string where "LOST_IMAGE = ''lost_image.png''"

section \<open>Selection modes of the graphics view (picker_gui_utils.GraphicsView)\<close>

datatype mouse_button = NoButton | LeftButton | RightButton | MiddleButton

datatype keyboard_modifier =
    ShiftModifier | ControlModifier | AltModifier | MetaModifier | KeypadModifier

datatype drag_mode = RubberBandDrag | ScrollHandDrag

text \<open>
  What \<open>self.itemAt(event.pos())\<close> finds under the pointer: nothing, a
  \<open>GraphicsPixmap\<close> or any other item (a \<open>GraphicsButton\<close>).
\<close>

datatype 'a item_at = NoItem | PixmapAt 'a | ButtonAt 'a

record 'a mouse_event =
  button :: mouse_button
  modifiers :: "keyboard_modifier set"
  event_pos :: "int \<times> int"
  itemAt :: "'a item_at"

text \<open>
  The attributes of \<open>GraphicsView\<close> that the selection code reads and writes.
  \<open>mode\<close> is not assigned in \<open>__init__\<close>: it is \<open>None\<close> until the first press.
  \<open>old_sel_items\<close> holds what \<open>getItemAtClick\<close> returned, so an entry may be
  Python's \<open>None\<close> (a click on empty space): its elements are \<open>'a option\<close>.
\<close>

record 'a graphics_view =
  mode :: "string option"
  drag :: bool
  dragMode :: drag_mode
  initial_mouse_pos :: "(int \<times> int) option"
  old_sel_items :: "'a option list"

definition getItemAtClick :: "'a mouse_event \<Rightarrow> 'a option" where
  "getItemAtClick event =
     (case itemAt event of
        NoItem \<Rightarrow> None
      | PixmapAt obj \<Rightarrow> None
      | ButtonAt obj \<Rightarrow> Some obj)"

definition middleMouseButtonPress ::
  "'a graphics_view \<Rightarrow> 'a mouse_event \<Rightarrow> 'a graphics_view" where
  "middleMouseButtonPress v event = v\<lparr>dragMode := ScrollHandDrag\<rparr>"

definition leftMouseButtonPress ::
  "'a graphics_view \<Rightarrow> 'a mouse_event \<Rightarrow> 'a graphics_view" where
  "leftMouseButtonPress v event =
     (let v1 = v\<lparr>mode := Some ''replace''\<rparr>;
          item = getItemAtClick event
      in if item \<noteq> None then v1\<lparr>drag := True\<rparr> else v1\<lparr>drag := False\<rparr>)"

definition shift_left_click ::
  "'a graphics_view \<Rightarrow> 'a mouse_event \<Rightarrow> 'a graphics_view" where
  "shift_left_click v event = v\<lparr>mode := Some ''toggle''\<rparr>"

definition ctrl_click ::
  "'a graphics_view \<Rightarrow> 'a mouse_event \<Rightarrow> 'a graphics_view" where
  "ctrl_click v event = v\<lparr>mode := Some ''subtract''\<rparr>"

definition ctrl_shift_left_click ::
  "'a graphics_view \<Rightarrow> 'a mouse_event \<Rightarrow> 'a graphics_view" where
  "ctrl_shift_left_click v event = v\<lparr>mode := Some ''add''\<rparr>"

text \<open>
  \<open>mousePressEvent\<close>: the middle-button test is an \<open>if\<close> of its own, the four
  left-button tests form one \<open>if/elif\<close> chain, and the last branch hands the event
  to Qt. The modifier tests compare the whole flag set.
\<close>

definition mousePressEvent ::
  "'a graphics_view \<Rightarrow> 'a mouse_event \<Rightarrow> 'a graphics_view" where
  "mousePressEvent v event =
     (let v1 = v\<lparr>initial_mouse_pos := Some (event_pos event), drag := False\<rparr>;
          v2 = (if button event = MiddleButton then middleMouseButtonPress v1 event else v1)
      in if button event = LeftButton \<and>
            modifiers event = {ShiftModifier, ControlModifier}
         then ctrl_shift_left_click v2 event
         else if button event = LeftButton \<and> modifiers event = {ShiftModifier}
         then shift_left_click v2 event
         else if button event = LeftButton \<and> modifiers event = {ControlModifier}
         then ctrl_click v2 event
         else if button event = LeftButton
         then leftMouseButtonPress v2 event
         else v2)"

text \<open>
  \<open>list(set(a).union(set(b)))\<close> and \<open>list(set(a).difference(set(b)))\<close>: the
  result is a list without duplicates of the elements of the set; the order CPython
  gives it is not specified, the model keeps the order of first occurrence.
\<close>

definition set_union_list :: "'b list \<Rightarrow> 'b list \<Rightarrow> 'b list" where
  "set_union_list a b = remdups (a @ b)"

definition set_difference_list :: "'b list \<Rightarrow> 'b list \<Rightarrow> 'b list" where
  "set_difference_list a b = filter (\<lambda>x. x \<notin> set b) (remdups a)"

definition evaluate_temp_items ::
  "'a graphics_view \<Rightarrow> 'a option list \<Rightarrow> py_error + 'a graphics_view" where
  "evaluate_temp_items v changed_items =
     (case mode v of
        None \<Rightarrow> Inl AttributeError
      | Some m \<Rightarrow>
          if m = ''replace'' then
            (let v1 = (if drag v then v else v\<lparr>old_sel_items := []\<rparr>)
             in Inr (v1\<lparr>old_sel_items :=
                          set_union_list (old_sel_items v1) changed_items\<rparr>))
          else if m = ''toggle'' then
            (let add_items = filter (\<lambda>item. item \<notin> set (old_sel_items v)) changed_items;
                 subtract_items = filter (\<lambda>item. item \<in> set (old_sel_items v)) changed_items;
                 v1 = v\<lparr>old_sel_items := set_union_list (old_sel_items v) add_items\<rparr>
             in Inr (v1\<lparr>old_sel_items :=
                          set_difference_list (old_sel_items v1) subtract_items\<rparr>))
          else if m = ''subtract'' then
            Inr (v\<lparr>old_sel_items :=
                      set_difference_list (old_sel_items v) changed_items\<rparr>)
          else if m = ''add'' then
            Inr (v\<lparr>old_sel_items :=
                      set_union_list (old_sel_items v) changed_items\<rparr>)
          else Inr v)"

section \<open>Buttons and images (picker_gui_utils.GraphicsButton, GraphicsPixmap)\<close>

text \<open>
  A \<open>QRect\<close> has integer coordinates. PySide2 takes a \<open>QRect\<close> in a boolean
  context through \<open>isNull()\<close>, which holds when width and height are both 0. A
  \<open>QColor\<close> keeps three components in 0..255; the constructor leaves an invalid
  colour, whose components read 0, when an argument is out of that range.

  Of a \<open>GraphicsButton\<close> the record keeps the attributes the modelled functions read
  or write, and from \<open>QGraphicsItem\<close> the position, the z value and the selection
  flag. Items have no parent item, so \<open>scenePos()\<close> is \<open>pos()\<close>. The pens and the
  item flags are left out. \<open>minimum_size\<close> is always \<open>MINIMUM_SIZE\<close>. A polygon and
  the stored coordinates are lists of points.
\<close>

record qrect =
  rect_x :: int
  rect_y :: int
  rect_width :: int
  rect_height :: int

definition QRect :: "int \<Rightarrow> int \<Rightarrow> int \<Rightarrow> int \<Rightarrow> qrect" where
  "QRect x y w h = \<lparr>rect_x = x, rect_y = y, rect_width = w, rect_height = h\<rparr>"

definition qrect_isNull :: "qrect \<Rightarrow> bool" where
  "qrect_isNull r = (rect_width r = 0 \<and> rect_height r = 0)"

record qcolor =
  red :: "8 word"
  green :: "8 word"
  blue :: "8 word"

definition QColor :: "int \<Rightarrow> int \<Rightarrow> int \<Rightarrow> qcolor" where
  "QColor r g b =
     (if 0 \<le> r \<and> r \<le> 255 \<and> 0 \<le> g \<and> g \<le> 255 \<and> 0 \<le> b \<and> b \<le> 255
      then \<lparr>red = word_of_int r, green = word_of_int g, blue = word_of_int b\<rparr>
      else \<lparr>red = 0, green = 0, blue = 0\<rparr>)"


record graphics_button =
  scenePos :: "real \<times> real"
  zValue :: real
  isSelected :: bool
  sel_objs :: "string list"
  brush_col :: qcolor
  brush :: qcolor
  btn_text :: string
  set_rect :: qrect
  curr_shape :: string
  curr_coords :: "(real \<times> real) list"
  set_polygon :: "(real \<times> real) list"

record button_kwargs =
  kw_brush_col :: "qcolor option"
  kw_text :: "string option"
  kw_set_rect :: "qrect option"
  kw_curr_shape :: "string option"
  kw_curr_coords :: "(real \<times> real) list option"
  kw_set_polygon :: "(real \<times> real) list option"

definition no_kwargs :: button_kwargs where
  "no_kwargs = \<lparr>kw_brush_col = None, kw_text = None, kw_set_rect = None,
                 kw_curr_shape = None, kw_curr_coords = None, kw_set_polygon = None\<rparr>"

definition setdefault :: "'a option \<Rightarrow> 'a \<Rightarrow> 'a" where
  "setdefault kw dflt = (case kw of None \<Rightarrow> dflt | Some v \<Rightarrow> v)"

definition GraphicsButton :: "string list option \<Rightarrow> button_kwargs \<Rightarrow> graphics_button" where
  "GraphicsButton sel_list kwargs =
     (let col = setdefault (kw_brush_col kwargs) (QColor 0 0 0);
          coords = setdefault (kw_curr_coords kwargs)
                     [(0, 0), (MINIMUM_SIZE, 0), (MINIMUM_SIZE, MINIMUM_SIZE),
                      (0, MINIMUM_SIZE)]
      in \<lparr>scenePos = (0, 0), zValue = 0, isSelected = False,
          sel_objs = (case sel_list of None \<Rightarrow> [] | Some l \<Rightarrow> l),
          brush_col = col, brush = col,
          btn_text = setdefault (kw_text kwargs) '''',
          set_rect = setdefault (kw_set_rect kwargs) (QRect 0 0 5 5),
          curr_shape = setdefault (kw_curr_shape kwargs) (SHAPES ! 0),
          curr_coords = coords,
          set_polygon = setdefault (kw_set_polygon kwargs) coords\<rparr>)"

definition QPolygonF_of_rect :: "qrect \<Rightarrow> (real \<times> real) list" where
  "QPolygonF_of_rect r =
     (let x = real_of_int (rect_x r); y = real_of_int (rect_y r);
          w = real_of_int (rect_width r); h = real_of_int (rect_height r)
      in [(x, y), (x + w, y), (x + w, y + h), (x, y + h), (x, y)])"

definition scale_coords :: "qrect \<Rightarrow> (real \<times> real) list \<Rightarrow> (real \<times> real) list" where
  "scale_coords rectF new_polygon_coords =
     (let curr_width = real_of_int (rect_width rectF);
          curr_height = real_of_int (rect_height rectF);
          scale_width_factor = curr_width / MINIMUM_SIZE;
          scale_height_factor = curr_height / MINIMUM_SIZE
      in map (\<lambda>curr_coords. (fst curr_coords * scale_width_factor,
                             snd curr_coords * scale_height_factor))
           new_polygon_coords)"

definition update_polygon ::
  "graphics_button \<Rightarrow> (real \<times> real) list option \<Rightarrow> graphics_button" where
  "update_polygon b new_polygon_coords =
     (if curr_shape b \<noteq> SHAPES ! 2
      then b\<lparr>set_polygon := QPolygonF_of_rect (set_rect b)\<rparr>
      else
        (case (case new_polygon_coords of
                 None \<Rightarrow> if curr_coords b = [] then None else Some (curr_coords b)
               | Some cs \<Rightarrow>
                   if cs = []
                   then (if curr_coords b = [] then None else Some (curr_coords b))
                   else Some cs) of
           None \<Rightarrow> b
         | Some coords \<Rightarrow>
             b\<lparr>curr_coords := coords,
               set_polygon := scale_coords (set_rect b) coords\<rparr>))"

definition update_curr_shape :: "graphics_button \<Rightarrow> string option \<Rightarrow> graphics_button" where
  "update_curr_shape b new_shape =
     (case new_shape of
        None \<Rightarrow> b
      | Some s \<Rightarrow> if s = [] then b else update_polygon (b\<lparr>curr_shape := s\<rparr>) None)"

definition update_bounding_rect :: "graphics_button \<Rightarrow> qrect option \<Rightarrow> graphics_button" where
  "update_bounding_rect b new_rect =
     (case new_rect of
        None \<Rightarrow> b
      | Some r \<Rightarrow> if qrect_isNull r then b
                  else update_polygon (b\<lparr>set_rect := r\<rparr>) None)"

definition highlight_button :: "graphics_button \<Rightarrow> bool \<Rightarrow> graphics_button" where
  "highlight_button b hl =
     (if hl then b\<lparr>brush := QColor 255 255 255\<rparr> else b\<lparr>brush := brush_col b\<rparr>)"

record graphics_pixmap =
  pm_scenePos :: "real \<times> real"
  pm_zValue :: real
  pm_isSelected :: bool
  good_img :: bool
  file_path :: string

definition GraphicsPixmap :: "string \<Rightarrow> bool \<Rightarrow> graphics_pixmap" where
  "GraphicsPixmap img good =
     \<lparr>pm_scenePos = (0, 0), pm_zValue = 0, pm_isSelected = False,
      good_img = good, file_path = img\<rparr>"

section \<open>The scene and the operations of picker_gui.PickerWindow on it\<close>

text \<open>
  A scene holds its items in the order in which \<open>addItem\<close> added them.
  \<open>items()\<close> reports them in the descending stacking order of Qt
  (\<open>items_descending\<close>): by falling z value, and of two items with the same z value
  the one added later first. \<open>selectedItems()\<close>, whose order Qt leaves open, is
  taken in the order of addition. The reference item of a scene is an item of the
  scene, named by its index.
  A loop over the selected items that changes them in place is a traversal of the
  scene's items that changes the selected ones (\<open>for_selected\<close>); the first exception
  ends it. \<open>get_center\<close> and \<open>convert_from_center\<close> read \<open>item.set_rect\<close>, which a
  \<open>GraphicsPixmap\<close> does not have: on an image they raise \<open>AttributeError\<close>.
\<close>

datatype gr_item = Button graphics_button | Pixmap graphics_pixmap

record graphics_scene =
  scene_items :: "gr_item list"
  ref_item :: "nat option"

record mirror_settings =
  x_rdbtn :: bool
  y_rdbtn :: bool
  mirror_on_combo :: string
  type_combo :: string

fun item_isSelected :: "gr_item \<Rightarrow> bool" where
  "item_isSelected (Button b) = isSelected b"
| "item_isSelected (Pixmap p) = pm_isSelected p"

fun is_button :: "gr_item \<Rightarrow> bool" where
  "is_button (Button b) = True"
| "is_button (Pixmap p) = False"

fun item_zValue :: "gr_item \<Rightarrow> real" where
  "item_zValue (Button b) = zValue b"
| "item_zValue (Pixmap p) = pm_zValue p"

fun setZValue :: "gr_item \<Rightarrow> real \<Rightarrow> gr_item" where
  "setZValue (Button b) z = Button (b\<lparr>zValue := z\<rparr>)"
| "setZValue (Pixmap p) z = Pixmap (p\<lparr>pm_zValue := z\<rparr>)"

fun setPos :: "gr_item \<Rightarrow> real \<times> real \<Rightarrow> gr_item" where
  "setPos (Button b) pos = Button (b\<lparr>scenePos := pos\<rparr>)"
| "setPos (Pixmap p) pos = Pixmap (p\<lparr>pm_scenePos := pos\<rparr>)"

fun setX :: "gr_item \<Rightarrow> real \<Rightarrow> gr_item" where
  "setX (Button b) x = Button (b\<lparr>scenePos := (x, snd (scenePos b))\<rparr>)"
| "setX (Pixmap p) x = Pixmap (p\<lparr>pm_scenePos := (x, snd (pm_scenePos p))\<rparr>)"

fun setY :: "gr_item \<Rightarrow> real \<Rightarrow> gr_item" where
  "setY (Button b) y = Button (b\<lparr>scenePos := (fst (scenePos b), y)\<rparr>)"
| "setY (Pixmap p) y = Pixmap (p\<lparr>pm_scenePos := (fst (pm_scenePos p), y)\<rparr>)"


definition selectedItems :: "graphics_scene \<Rightarrow> gr_item list" where
  "selectedItems s = filter item_isSelected (scene_items s)"

definition scene_ref_item :: "graphics_scene \<Rightarrow> gr_item option" where
  "scene_ref_item s =
     (case ref_item s of
        None \<Rightarrow> None
      | Some i \<Rightarrow> if i < length (scene_items s) then Some (scene_items s ! i) else None)"

fun get_center :: "gr_item \<Rightarrow> py_error + (real \<times> real)" where
  "get_center (Button item) =
     (let rect = set_rect item;
          item_pos = scenePos item;
          x_dist = fdiv (float_of_int (rect_width rect)) 2;
          y_dist = fdiv (float_of_int (rect_height rect)) 2
      in Inr (fadd (fst item_pos) x_dist, fadd (snd item_pos) y_dist))"
| "get_center (Pixmap item) = Inl AttributeError"

fun convert_from_center :: "real \<times> real \<Rightarrow> gr_item \<Rightarrow> py_error + (real \<times> real)" where
  "convert_from_center center (Button item) =
     (let rect = set_rect item;
          x_dist = fdiv (float_of_int (rect_width rect)) 2;
          y_dist = fdiv (float_of_int (rect_height rect)) 2
      in Inr (fsub (fst center) x_dist, fsub (snd center) y_dist))"
| "convert_from_center center (Pixmap item) = Inl AttributeError"

fun for_selected ::
  "(gr_item \<Rightarrow> py_error + gr_item) \<Rightarrow> gr_item list \<Rightarrow> py_error + gr_item list" where
  "for_selected body [] = Inr []"
| "for_selected body (item # rest) =
     (if item_isSelected item
      then (case body item of
              Inl e \<Rightarrow> Inl e
            | Inr item' \<Rightarrow>
                (case for_selected body rest of
                   Inl e \<Rightarrow> Inl e
                 | Inr rest' \<Rightarrow> Inr (item' # rest')))
      else (case for_selected body rest of
              Inl e \<Rightarrow> Inl e
            | Inr rest' \<Rightarrow> Inr (item # rest')))"

definition bring_forward :: "graphics_scene \<Rightarrow> py_error + graphics_scene" where
  "bring_forward s =
     (if selectedItems s = [] then Inr s
      else case for_selected
                  (\<lambda>item. Inr (setZValue item (fadd (item_zValue item) (fl (1 / 100)))))
                  (scene_items s) of
             Inl e \<Rightarrow> Inl e
           | Inr items' \<Rightarrow> Inr (s\<lparr>scene_items := items'\<rparr>))"

definition send_backward :: "graphics_scene \<Rightarrow> py_error + graphics_scene" where
  "send_backward s =
     (if selectedItems s = [] then Inr s
      else case for_selected
                  (\<lambda>item. Inr (setZValue item (fsub (item_zValue item) (fl (1 / 100)))))
                  (scene_items s) of
             Inl e \<Rightarrow> Inl e
           | Inr items' \<Rightarrow> Inr (s\<lparr>scene_items := items'\<rparr>))"

fun total_center_x :: "gr_item list \<Rightarrow> real \<Rightarrow> py_error + real" where
  "total_center_x [] x_total = Inr x_total"
| "total_center_x (item # rest) x_total =
     (case get_center item of
        Inl e \<Rightarrow> Inl e
      | Inr c \<Rightarrow> total_center_x rest (fadd x_total (fst c)))"

fun total_center_y :: "gr_item list \<Rightarrow> real \<Rightarrow> py_error + real" where
  "total_center_y [] y_total = Inr y_total"
| "total_center_y (item # rest) y_total =
     (case get_center item of
        Inl e \<Rightarrow> Inl e
      | Inr c \<Rightarrow> total_center_y rest (fadd y_total (snd c)))"

definition align_item_x :: "real \<Rightarrow> gr_item \<Rightarrow> py_error + gr_item" where
  "align_item_x x item =
     (case convert_from_center (x, 0) item of
        Inl e \<Rightarrow> Inl e
      | Inr x_new_center \<Rightarrow> Inr (setX item (fst x_new_center)))"

definition align_item_y :: "real \<Rightarrow> gr_item \<Rightarrow> py_error + gr_item" where
  "align_item_y y item =
     (case convert_from_center (0, y) item of
        Inl e \<Rightarrow> Inl e
      | Inr y_new_center \<Rightarrow> Inr (setY item (snd y_new_center)))"

definition align_by_x :: "graphics_scene \<Rightarrow> py_error + graphics_scene" where
  "align_by_x s =
     (case scene_ref_item s of
        Some ref \<Rightarrow>
          (case get_center ref of
             Inl e \<Rightarrow> Inl e
           | Inr ref_item_center \<Rightarrow>
               (case for_selected (align_item_x (fst ref_item_center)) (scene_items s) of
                  Inl e \<Rightarrow> Inl e
                | Inr items' \<Rightarrow> Inr (s\<lparr>scene_items := items'\<rparr>)))
      | None \<Rightarrow>
          (let sel_items = selectedItems s
           in case total_center_x sel_items 0 of
                Inl e \<Rightarrow> Inl e
              | Inr x_total \<Rightarrow>
                  if length sel_items = 0 then Inl ZeroDivisionError
                  else (let x_average = fdiv x_total
                                          (float_of_int (int (length sel_items)))
                        in case for_selected (align_item_x x_average) (scene_items s) of
                             Inl e \<Rightarrow> Inl e
                           | Inr items' \<Rightarrow> Inr (s\<lparr>scene_items := items'\<rparr>))))"

definition align_by_y :: "graphics_scene \<Rightarrow> py_error + graphics_scene" where
  "align_by_y s =
     (case scene_ref_item s of
        Some ref \<Rightarrow>
          (case get_center ref of
             Inl e \<Rightarrow> Inl e
           | Inr ref_item_center \<Rightarrow>
               (case for_selected (align_item_y (snd ref_item_center)) (scene_items s) of
                  Inl e \<Rightarrow> Inl e
                | Inr items' \<Rightarrow> Inr (s\<lparr>scene_items := items'\<rparr>)))
      | None \<Rightarrow>
          (let sel_items = selectedItems s
           in case total_center_y sel_items 0 of
                Inl e \<Rightarrow> Inl e
              | Inr y_total \<Rightarrow>
                  if length sel_items = 0 then Inl ZeroDivisionError
                  else (let y_average = fdiv y_total
                                          (float_of_int (int (length sel_items)))
                        in case for_selected (align_item_y y_average) (scene_items s) of
                             Inl e \<Rightarrow> Inl e
                           | Inr items' \<Rightarrow> Inr (s\<lparr>scene_items := items'\<rparr>))))"

definition mirror_coords ::
  "bool \<Rightarrow> bool \<Rightarrow> (real \<times> real) list \<Rightarrow> (real \<times> real) list" where
  "mirror_coords mirror_x mirror_y new_coords =
     (let coords1 = (if mirror_x
                     then map (\<lambda>coord. (MINIMUM_SIZE - fst coord, snd coord)) new_coords
                     else new_coords)
      in if mirror_y
         then map (\<lambda>coord. (fst coord, MINIMUM_SIZE - snd coord)) coords1
         else coords1)"

definition mirror_center ::
  "bool \<Rightarrow> bool \<Rightarrow> string \<Rightarrow> real \<times> real \<Rightarrow> real \<times> real \<Rightarrow> real \<times> real" where
  "mirror_center mirror_x mirror_y mirror_on ref_item_center curr_item_center =
     (if mirror_on = MIRROR_ONS ! 1
      then (if mirror_x
            then fsub (fst ref_item_center)
                   (fsub (fst curr_item_center) (fst ref_item_center))
            else fst curr_item_center,
            if mirror_y
            then fsub (snd ref_item_center)
                   (fsub (snd curr_item_center) (snd ref_item_center))
            else snd curr_item_center)
      else if mirror_on = MIRROR_ONS ! 0
      then (if mirror_x then - fst curr_item_center else fst curr_item_center,
            if mirror_y then - snd curr_item_center else snd curr_item_center)
      else curr_item_center)"

text \<open>
  \<open>mirror_item\<close> is one round of the loop of \<open>mirror_sel_btns\<close>: it gives the
  item as the round leaves it and the item that the Duplicate type adds to the scene.
  \<open>mirror_loop\<close> runs it on the selected items; the scene then holds the items it
  had, followed by the added ones. \<open>ref_item_center\<close> is assigned only when the
  mirror is about the reference shape and read only then; otherwise the model passes
  (0, 0) in its place.
\<close>

fun mirror_item ::
  "bool \<Rightarrow> bool \<Rightarrow> string \<Rightarrow> string \<Rightarrow> real \<times> real \<Rightarrow> gr_item \<Rightarrow>
   py_error + (gr_item \<times> gr_item list)" where
  "mirror_item mirror_x mirror_y mirror_on mirror_type ref_item_center (Pixmap p) =
     Inl AttributeError"
| "mirror_item mirror_x mirror_y mirror_on mirror_type ref_item_center (Button item) =
     (case get_center (Button item) of
        Inl e \<Rightarrow> Inl e
      | Inr curr_item_center \<Rightarrow>
          (let new_rect = set_rect item;
               center_new = mirror_center mirror_x mirror_y mirror_on ref_item_center
                              curr_item_center
           in case convert_from_center center_new (Button item) of
                Inl e \<Rightarrow> Inl e
              | Inr new_shape_coord \<Rightarrow>
                  (let new_coords = mirror_coords mirror_x mirror_y (curr_coords item)
                   in if mirror_type = MIRROR_TYPES ! 0
                      then (let new_polygon =
                                  update_polygon
                                    (GraphicsButton (Some (sel_objs item))
                                       \<lparr>kw_brush_col = Some (brush_col item),
                                        kw_text = Some (btn_text item),
                                        kw_set_rect = Some new_rect,
                                        kw_curr_shape = Some (curr_shape item),
                                        kw_curr_coords = Some new_coords,
                                        kw_set_polygon = None\<rparr>) None
                            in Inr (Button item,
                                    [Button (new_polygon\<lparr>scenePos := new_shape_coord\<rparr>)]))
                      else if mirror_type = MIRROR_TYPES ! 1
                      then Inr (Button
                                  (update_polygon
                                     (update_bounding_rect
                                        (item\<lparr>scenePos := new_shape_coord\<rparr>)
                                        (Some new_rect))
                                     (Some new_coords)), [])
                      else Inr (Button item, []))))"

fun mirror_loop ::
  "(gr_item \<Rightarrow> py_error + (gr_item \<times> gr_item list)) \<Rightarrow> gr_item list \<Rightarrow>
   py_error + (gr_item list \<times> gr_item list)" where
  "mirror_loop body [] = Inr ([], [])"
| "mirror_loop body (item # rest) =
     (if item_isSelected item
      then (case body item of
              Inl e \<Rightarrow> Inl e
            | Inr (item', created) \<Rightarrow>
                (case mirror_loop body rest of
                   Inl e \<Rightarrow> Inl e
                 | Inr (rest', created') \<Rightarrow> Inr (item' # rest', created @ created')))
      else (case mirror_loop body rest of
              Inl e \<Rightarrow> Inl e
            | Inr (rest', created') \<Rightarrow> Inr (item # rest', created')))"

definition mirror_sel_btns ::
  "mirror_settings \<Rightarrow> graphics_scene \<Rightarrow> string list \<times> (py_error + graphics_scene)" where
  "mirror_sel_btns settings s =
     (if selectedItems s = [] then ([], Inr s)
      else
        (let mirror_x = x_rdbtn settings;
             mirror_y = y_rdbtn settings;
             mirror_on = mirror_on_combo settings;
             mirror_type = type_combo settings
         in if \<not> mirror_x \<and> \<not> mirror_y
            then ([''Unable to mirror since no mirror axis set. Check the Mirror '' @
                   ''Settings to set one.''], Inr s)
            else
              (let mirror_on = (if mirror_on = MIRROR_ONS ! 1 \<and> scene_ref_item s = None
                                then MIRROR_ONS ! 0 else mirror_on)
               in case (if mirror_on = MIRROR_ONS ! 1
                        then (case scene_ref_item s of
                                None \<Rightarrow> Inr (0, 0)
                              | Some ref \<Rightarrow> get_center ref)
                        else Inr (0, 0)) of
                    Inl e \<Rightarrow> ([], Inl e)
                  | Inr ref_item_center \<Rightarrow>
                      (case mirror_loop
                              (mirror_item mirror_x mirror_y mirror_on mirror_type
                                 ref_item_center)
                              (scene_items s) of
                         Inl e \<Rightarrow> ([], Inl e)
                       | Inr (items', created) \<Rightarrow>
                           ([], Inr (s\<lparr>scene_items := items' @ created\<rparr>))))))"

section \<open>Custom shapes from a curve (PickerWindow.get_shape_from_scene)\<close>

text \<open>
  \<open>maya_selection\<close> is what \<open>cmds.ls(selection=True, type=...)\<close> returns and
  \<open>samples\<close> are the points \<open>cmds.pointOnCurve\<close> returns, one for each round of the
  sampling loop, in order. The first component of a result is what the function prints.
\<close>

definition join_comma :: "string list \<Rightarrow> string" where
  "join_comma xs = concat (case xs of [] \<Rightarrow> [] | y # ys \<Rightarrow> y # map (\<lambda>s. '', '' @ s) ys)"

definition get_selected_items ::
  "bool \<Rightarrow> string list \<Rightarrow> string list \<Rightarrow> string list \<times> string list option" where
  "get_selected_items multi type sel_items =
     (if sel_items = []
      then ([''No valid items selected. Please select of type: '' @ join_comma type], None)
      else if multi then ([], Some sel_items)
      else if length sel_items > 1 then ([''Too many selected''], None)
      else ([], Some sel_items))"

definition min_max_step :: "(real \<times> real) option \<Rightarrow> real \<Rightarrow> (real \<times> real) option" where
  "min_max_step bounds v =
     (let (v_min, v_max) = (case bounds of None \<Rightarrow> (v, v) | Some r \<Rightarrow> r)
      in if v < v_min then Some (v, v_max)
         else if v > v_max then Some (v_min, v)
         else Some (v_min, v_max))"

fun find_min_max ::
  "(string \<times> string) list \<Rightarrow> (real \<times> real) option \<times> (real \<times> real) option \<Rightarrow>
   py_error + ((real \<times> real) option \<times> (real \<times> real) option)" where
  "find_min_max [] ranges = Inr ranges"
| "find_min_max (point # rest) ranges =
     (case py_float (fst point) of
        Inl e \<Rightarrow> Inl e
      | Inr x \<Rightarrow>
          (case py_float (snd point) of
             Inl e \<Rightarrow> Inl e
           | Inr y \<Rightarrow>
               find_min_max rest
                 (min_max_step (fst ranges) x, min_max_step (snd ranges) y)))"

fun convert_points ::
  "(string \<times> string) list \<Rightarrow> real \<Rightarrow> real \<Rightarrow> real \<Rightarrow> py_error + (real \<times> real) list" where
  "convert_points [] x_min y_min scale_factor = Inr []"
| "convert_points (point # rest) x_min y_min scale_factor =
     (case py_float (fst point) of
        Inl e \<Rightarrow> Inl e
      | Inr px \<Rightarrow>
          (case py_float (snd point) of
             Inl e \<Rightarrow> Inl e
           | Inr py \<Rightarrow>
               (case convert_points rest x_min y_min scale_factor of
                  Inl e \<Rightarrow> Inl e
                | Inr ps \<Rightarrow>
                    Inr (((px - x_min) * scale_factor, (py - y_min) * scale_factor) # ps))))"

definition normalize_points :: "(string \<times> string) list \<Rightarrow> py_error + (real \<times> real) list" where
  "normalize_points creation_points =
     (case find_min_max creation_points (None, None) of
        Inl e \<Rightarrow> Inl e
      | Inr (Some (x_min, x_max), Some (y_min, y_max)) \<Rightarrow>
          (let x_length = x_max - x_min;
               y_length = y_max - y_min;
               square_length = (if x_length > y_length then x_length else y_length)
           in if square_length = 0 then Inl ZeroDivisionError
              else convert_points creation_points x_min y_min
                     (MINIMUM_SIZE / square_length))
      | Inr _ \<Rightarrow> Inl TypeError)"

definition get_shape_from_scene ::
  "string list \<Rightarrow> (real \<times> real \<times> real) list \<Rightarrow> graphics_button \<Rightarrow>
   string list \<times> (py_error + graphics_button)" where
  "get_shape_from_scene maya_selection samples pp_item =
     (case get_selected_items False [''nurbsCurve''] maya_selection of
        (out, None) \<Rightarrow> (out, Inr pp_item)
      | (out, Some curr_sel) \<Rightarrow>
          (let creation_points =
                 map (\<lambda>coordinates. (format_f 3 (fst coordinates),
                                      format_f 3 (snd (snd coordinates)))) samples
           in case normalize_points creation_points of
                Inl e \<Rightarrow> (out, Inl e)
              | Inr new_creation_points \<Rightarrow>
                  (out, Inr (update_polygon pp_item (Some new_creation_points)))))"

section \<open>XML export and import (PickerWindow.save_xml_file, load_xml_file)\<close>

text \<open>
  The document built with \<open>xml.dom.minidom\<close> and the tree read with
  \<open>xml.etree.ElementTree\<close> are values of \<open>xml\<close>: a tag, the attributes and the
  children. The two libraries are not part of the repository: the writer
  (\<open>toprettyxml\<close>) and the parser (\<open>et.parse\<close> on the content of a file) are
  parameters of the two functions, and \<open>'f\<close> is what a file holds; the subsection on
  the XML libraries gives the writer and the parser that the round trip is stated for. A disk maps a path to the content of the
  file there, if there is one. The file dialogs are represented by the file name they
  return, the empty string when the user cancels. \<open>working_dir\<close> is
  \<open>PickerToolEnums.WORKING_DIR\<close>, known at run time only, and \<open>os_path_join\<close> is
  \<open>os.path.join\<close> on POSIX paths.

  \<open>tab_widget\<close> is the list of tabs, each a name and its scene (\<open>tabs_dict\<close> maps
  the index of a tab to the scene).
\<close>

datatype xml = Element (tag: string) (attrib: "(string \<times> string) list") (getchildren: "xml list")

type_synonym 'f disk = "string \<Rightarrow> 'f option"

definition os_path_join :: "string \<Rightarrow> string \<Rightarrow> string" where
  "os_path_join a b =
     (if b \<noteq> [] \<and> hd b = CHR ''/'' then b
      else if a = [] \<or> last a = CHR ''/'' then a @ b
      else a @ ''/'' @ b)"

subsection \<open>save\<close>

definition pos_element :: "string \<Rightarrow> real \<times> real \<Rightarrow> real \<Rightarrow> xml" where
  "pos_element name save_pos save_z =
     Element name [(''x'', format_f 2 (fst save_pos)), (''y'', format_f 2 (snd save_pos)),
                   (''z'', format_f 2 save_z)] []"









subsection \<open>load\<close>

definition attrib_get :: "xml \<Rightarrow> string \<Rightarrow> py_error + string" where
  "attrib_get e k = (case map_of (attrib e) k of None \<Rightarrow> Inl KeyError | Some v \<Rightarrow> Inr v)"

fun split_comma_space :: "string \<Rightarrow> string \<Rightarrow> string list" where
  "split_comma_space acc [] = [rev acc]"
| "split_comma_space acc [c] = [rev (c # acc)]"
| "split_comma_space acc (c # d # cs) =
     (if c = CHR '','' \<and> d = CHR '' '' then rev acc # split_comma_space [] cs
      else split_comma_space (c # acc) (d # cs))"

definition load_point :: "xml \<Rightarrow> (real \<times> real) list \<Rightarrow> py_error + (real \<times> real) list" where
  "load_point point send_coord_list =
     then_do (attrib_get point ''x'') (\<lambda>sx.
     then_do (py_float sx) (\<lambda>x.
     then_do (attrib_get point ''y'') (\<lambda>sy.
     then_do (py_float sy) (\<lambda>y.
     Inr (send_coord_list @ [(x, y)])))))"

record load_state =
  send_kwargs :: button_kwargs
  new_pos :: "real \<times> real"
  z_val :: "real option"

definition load_pos :: "xml \<Rightarrow> py_error + ((real \<times> real) \<times> real)" where
  "load_pos attr =
     then_do (attrib_get attr ''x'') (\<lambda>sx.
     then_do (py_float sx) (\<lambda>x.
     then_do (attrib_get attr ''y'') (\<lambda>sy.
     then_do (py_float sy) (\<lambda>y.
     then_do (attrib_get attr ''z'') (\<lambda>sz.
     then_do (py_float sz) (\<lambda>z.
     Inr ((x, y), z)))))))"

definition load_shape_attr :: "xml \<Rightarrow> load_state \<Rightarrow> py_error + load_state" where
  "load_shape_attr attr st =
     (if tag attr = EXPORT_BTN_ATTRS ! 0 then
        then_do (attrib_get attr ''R'') (\<lambda>sr.
        then_do (py_int sr) (\<lambda>r.
        then_do (attrib_get attr ''G'') (\<lambda>sg.
        then_do (py_int sg) (\<lambda>g.
        then_do (attrib_get attr ''B'') (\<lambda>sb.
        then_do (py_int sb) (\<lambda>b.
        Inr (st\<lparr>send_kwargs := (send_kwargs st)\<lparr>kw_brush_col := Some (QColor r g b)\<rparr>\<rparr>)))))))
      else if tag attr = EXPORT_BTN_ATTRS ! 1 then
        then_do (attrib_get attr ''text'') (\<lambda>new_text.
        Inr (st\<lparr>send_kwargs := (send_kwargs st)\<lparr>kw_text := Some new_text\<rparr>\<rparr>))
      else if tag attr = EXPORT_BTN_ATTRS ! 3 then
        then_do (attrib_get attr ''width'') (\<lambda>sw.
        then_do (py_int sw) (\<lambda>w.
        then_do (attrib_get attr ''height'') (\<lambda>sh.
        then_do (py_int sh) (\<lambda>h.
        Inr (st\<lparr>send_kwargs := (send_kwargs st)\<lparr>kw_set_rect := Some (QRect 0 0 w h)\<rparr>\<rparr>)))))
      else if tag attr = EXPORT_BTN_ATTRS ! 6 then
        then_do (for_each load_point (getchildren attr) []) (\<lambda>send_coord_list.
        Inr (st\<lparr>send_kwargs :=
                  (send_kwargs st)\<lparr>kw_curr_coords := Some send_coord_list\<rparr>\<rparr>))
      else if tag attr = EXPORT_BTN_ATTRS ! 2 then
        then_do (load_pos attr) (\<lambda>pz.
        Inr (st\<lparr>new_pos := fst pz, z_val := Some (snd pz)\<rparr>))
      else Inr st)"

definition load_shape ::
  "xml \<Rightarrow> gr_item list \<times> real option \<Rightarrow> py_error + (gr_item list \<times> real option)" where
  "load_shape shape st =
     then_do (attrib_get shape (EXPORT_BTN_ATTRS ! 4)) (\<lambda>sel.
     then_do (attrib_get shape (EXPORT_BTN_ATTRS ! 5)) (\<lambda>set_shape.
     then_do (for_each load_shape_attr (getchildren shape)
                \<lparr>send_kwargs = no_kwargs, new_pos = (0, 0), z_val = snd st\<rparr>) (\<lambda>ls.
       (let shape_sel_objs = filter (\<lambda>s. s \<noteq> []) (split_comma_space [] sel);
            kwargs = (send_kwargs ls)\<lparr>kw_curr_shape := Some set_shape\<rparr>;
            new_polygon = update_polygon (GraphicsButton (Some shape_sel_objs) kwargs) None
        in case z_val ls of
             None \<Rightarrow> Inl UnboundLocalError
           | Some z \<Rightarrow>
               Inr (fst st @ [Button (new_polygon\<lparr>scenePos := new_pos ls, zValue := z\<rparr>)],
                    Some z)))))"

definition load_image_attr ::
  "xml \<Rightarrow> (real \<times> real) \<times> real \<Rightarrow> py_error + ((real \<times> real) \<times> real)" where
  "load_image_attr attr pz =
     (if tag attr = EXPORT_IMG_ATTRS ! 0 then load_pos attr else Inr pz)"

definition load_image ::
  "string \<Rightarrow> 'f disk \<Rightarrow> xml \<Rightarrow> gr_item list \<times> real option \<Rightarrow>
   py_error + (gr_item list \<times> real option)" where
  "load_image working_dir fs img st =
     then_do (attrib_get img (EXPORT_IMG_ATTRS ! 1)) (\<lambda>img_file_path.
     then_do (for_each load_image_attr (getchildren img) ((0, 0), - 1)) (\<lambda>pz.
       (let new_pixmap =
              (if fs img_file_path = None
               then GraphicsPixmap
                      (os_path_join (os_path_join working_dir CONFIG_FOLDER) LOST_IMAGE)
                      False
               else GraphicsPixmap img_file_path True)
        in Inr (fst st @ [Pixmap (new_pixmap\<lparr>pm_scenePos := fst pz, pm_zValue := snd pz\<rparr>)],
                Some (snd pz)))))"

definition load_category ::
  "string \<Rightarrow> 'f disk \<Rightarrow> xml \<Rightarrow> gr_item list \<times> real option \<Rightarrow>
   py_error + (gr_item list \<times> real option)" where
  "load_category working_dir fs category st =
     (if tag category = XML_BTN_CATEGORY
      then for_each load_shape (getchildren category) st
      else if tag category = XML_IMG_CATEGORY
      then for_each (load_image working_dir fs) (getchildren category) st
      else Inr st)"

definition load_tab ::
  "string \<Rightarrow> 'f disk \<Rightarrow> xml \<Rightarrow> (string \<times> graphics_scene) list \<times> real option \<Rightarrow>
   py_error + ((string \<times> graphics_scene) list \<times> real option)" where
  "load_tab working_dir fs tab st =
     then_do (for_each (load_category working_dir fs) (getchildren tab) ([], snd st))
       (\<lambda>r. Inr (fst st @ [(tag tab, \<lparr>scene_items = fst r, ref_item = None\<rparr>)], snd r))"

definition load_xml_file ::
  "('f \<Rightarrow> py_error + xml) \<Rightarrow> string \<Rightarrow> string \<Rightarrow> 'f disk \<Rightarrow>
   (string \<times> graphics_scene) list \<Rightarrow>
   string list \<times> (py_error + (string \<times> graphics_scene) list)" where
  "load_xml_file et_parse working_dir filename fs tab_widget =
     (if filename = [] then ([], Inr tab_widget)
      else
        (let out = (if fs filename = None then [''File does not exist: '' @ filename] else [])
         in case (case fs filename of
                    None \<Rightarrow> Inl FileNotFoundError
                  | Some content \<Rightarrow> et_parse content) of
              Inl e \<Rightarrow> (out, Inl e)
            | Inr xml_root \<Rightarrow>
                (case for_each (load_tab working_dir fs) (getchildren xml_root)
                        (tab_widget, None) of
                   Inl e \<Rightarrow> (out, Inl e)
                 | Inr r \<Rightarrow> (out @ [''Loaded file: '' @ filename], Inr (fst r)))))"

subsection \<open>The XML libraries\<close>





definition xml_space :: "char \<Rightarrow> bool" where
  "xml_space c = (c = CHR '' '' \<or> c = CHR 0x09 \<or> c = CHR 0x0A \<or> c = CHR 0x0D)"

definition xml_char :: "char \<Rightarrow> bool" where
  "xml_char c = (xml_space c \<or> (32 \<le> (of_char c :: nat) \<and> (of_char c :: nat) < 128))"


fun normalize_value :: "string \<Rightarrow> string" where
  "normalize_value [] = []"
| "normalize_value [c] = [if xml_space c then CHR '' '' else c]"
| "normalize_value (c # d # cs) =
     (if c = CHR 0x0D \<and> d = CHR 0x0A then CHR '' '' # normalize_value cs
      else (if xml_space c then CHR '' '' else c) # normalize_value (d # cs))"

definition read_value :: "string \<Rightarrow> string option" where
  "read_value s = (if list_all xml_char s then Some (normalize_value s) else None)"




section \<open>Example data\<close>

text \<open>
  The Rect shape of the specification's example, at position (0, 0) with size (25, 25),
  selected; a scene with that button, a second selected button and an image; the
  mirror settings for the x axis, about the world origin, moving the existing items; a
  Custom button with three points; a tab widget of one tab; and an image entry of an
  XML file whose path is not on the disk.
\<close>

definition example_button :: graphics_button where
  "example_button =
     (GraphicsButton None
        (no_kwargs\<lparr>kw_set_rect := Some (QRect 0 0 25 25),
                    kw_curr_shape := Some ''Rect''\<rparr>))\<lparr>isSelected := True\<rparr>"

definition example_scene :: graphics_scene where
  "example_scene =
     \<lparr>scene_items = [Button example_button,
                      Button (example_button\<lparr>scenePos := (10, 40)\<rparr>),
                      Pixmap (GraphicsPixmap ''front.png'' True)],
      ref_item = None\<rparr>"

definition example_settings :: mirror_settings where
  "example_settings =
     \<lparr>x_rdbtn = True, y_rdbtn = False, mirror_on_combo = ''World'',
      type_combo = ''Use Existing''\<rparr>"



definition example_image_entry :: xml where
  "example_image_entry =
     Element ''image_01'' [(''filepath'', ''/lost/front.png'')]
       [Element ''pos'' [(''x'', ''3.00''), (''y'', ''-4.50''), (''z'', ''-1.00'')] []]"

section \<open>Auxiliary notions for the proofs\<close>











text \<open>
  \<open>half_extent\<close> is the pair \<open>x_dist\<close>, \<open>y_dist\<close> that \<open>get_center\<close> and
  \<open>convert_from_center\<close> compute from the bounding rectangle of a button, and
  \<open>flip\<close> the negation of a coordinate that is mirrored about the world origin.
  \<open>mirrored_item\<close> relates an item to what one call of \<open>mirror_sel_btns\<close> about the
  world origin leaves of it when it moves the existing items: a selected button keeps its
  rectangle and is at the position computed from its mirrored centre, any other item is
  as it was. \<open>center_error c d\<close> bounds the rounding error of two such moves of a
  centre coordinate \<open>c\<close> with the half extent \<open>d\<close>, and of an alignment on the
  average of coordinates whose magnitudes sum up to \<open>c\<close>: eight times the relative
  error \<open>1 / 2 ^ 53\<close> of one rounding, taken of the two magnitudes, and eight times
  its absolute error \<open>1 / 2 ^ 1075\<close> among the subnormal numbers. \<open>centers_close\<close>
  says that the centre of the second item is within that bound of the centre of the
  first, in each coordinate.
\<close>

fun half_extent :: "gr_item \<Rightarrow> real \<times> real" where
  "half_extent (Button b) =
     (fdiv (float_of_int (rect_width (set_rect b))) 2,
      fdiv (float_of_int (rect_height (set_rect b))) 2)"
| "half_extent (Pixmap p) = (0, 0)"

definition flip :: "bool \<Rightarrow> real \<Rightarrow> real" where
  "flip mirrored c = (if mirrored then - c else c)"

fun button_moved :: "bool \<Rightarrow> bool \<Rightarrow> gr_item \<Rightarrow> gr_item \<Rightarrow> bool" where
  "button_moved mx my (Button b) (Button b') =
     (isSelected b' \<and> set_rect b' = set_rect b \<and>
      scenePos b' =
        (fsub (flip mx (fadd (fst (scenePos b)) (fst (half_extent (Button b)))))
           (fst (half_extent (Button b))),
         fsub (flip my (fadd (snd (scenePos b)) (snd (half_extent (Button b)))))
           (snd (half_extent (Button b)))))"
| "button_moved mx my item item' = False"

definition mirrored_item :: "bool \<Rightarrow> bool \<Rightarrow> bool \<Rightarrow> gr_item \<Rightarrow> gr_item \<Rightarrow> bool" where
  "mirrored_item active mx my item item' =
     (if active \<and> item_isSelected item then button_moved mx my item item'
      else item' = item)"

definition center_error :: "real \<Rightarrow> real \<Rightarrow> real" where
  "center_error c d = (\<bar>c\<bar> + \<bar>d\<bar>) / 2 ^ 50 + 1 / 2 ^ 1072"

definition centers_close :: "gr_item \<Rightarrow> gr_item \<Rightarrow> bool" where
  "centers_close item item' =
     (case get_center item of
        Inl e \<Rightarrow> get_center item' = Inl e
      | Inr c \<Rightarrow>
          (case get_center item' of
             Inl e \<Rightarrow> False
           | Inr c' \<Rightarrow>
               \<bar>fst c' - fst c\<bar> \<le> center_error (fst c) (fst (half_extent item)) \<and>
               \<bar>snd c' - snd c\<bar> \<le> center_error (snd c) (snd (half_extent item))))"

text \<open>
  \<open>selected_center_xs\<close> lists the x coordinates of the centres of the selected items,
  as \<open>get_center\<close> computes them, and \<open>mean_center_x\<close> is their arithmetic mean, a
  real number.
\<close>

definition selected_center_xs :: "graphics_scene \<Rightarrow> real list" where
  "selected_center_xs s = [fst c. Inr c \<leftarrow> map get_center (selectedItems s)]"

definition mean_center_x :: "graphics_scene \<Rightarrow> real" where
  "mean_center_x s =
     sum_list (selected_center_xs s) / real (length (selected_center_xs s))"

text \<open>
  \<open>mirror_twice\<close> is two calls of \<open>mirror_sel_btns\<close> in a row, the second on the
  scene the first leaves, and \<open>scene_centers\<close> lists the centres of the items of the
  scene that an operation returns.
\<close>

definition mirror_twice ::
  "mirror_settings \<Rightarrow> graphics_scene \<Rightarrow> py_error + graphics_scene" where
  "mirror_twice settings s =
     (case snd (mirror_sel_btns settings s) of
        Inl e \<Rightarrow> Inl e
      | Inr s1 \<Rightarrow> snd (mirror_sel_btns settings s1))"

definition scene_centers ::
  "py_error + graphics_scene \<Rightarrow> (py_error + real \<times> real) list" where
  "scene_centers r =
     (case r of
        Inl e \<Rightarrow> []
      | Inr s \<Rightarrow> map get_center (scene_items s))"

text \<open>
  The double nearest to 0.1 is \<open>3602879701896397 / 2 ^ 55\<close>, and the double nearest
  to -29.45 is \<open>- 8289438064128819 / 2 ^ 48\<close>. \<open>tenth_scene\<close> holds one selected
  button of size (25, 25) at (0.1, 0), and \<open>uneven_scene\<close> two selected buttons, of
  size (25, 25) at (-30, 0) and of size (30, 30) at (-29.45, 0).
\<close>

definition tenth_scene :: graphics_scene where
  "tenth_scene =
     \<lparr>scene_items = [Button (example_button\<lparr>scenePos := (3602879701896397 / 2 ^ 55, 0)\<rparr>)],
      ref_item = None\<rparr>"

definition uneven_scene :: graphics_scene where
  "uneven_scene =
     \<lparr>scene_items =
        [Button (example_button\<lparr>scenePos := (- 30, 0)\<rparr>),
         Button ((GraphicsButton None (no_kwargs\<lparr>kw_set_rect := Some (QRect 0 0 30 30)\<rparr>))
                   \<lparr>isSelected := True, scenePos := (- 8289438064128819 / 2 ^ 48, 0)\<rparr>)],
      ref_item = None\<rparr>"

section \<open>Properties of the number formats\<close>

lemma digit_val_digit_char: "n < 10 \<Longrightarrow> digit_val (digit_char n) = Some n"
proof -
  assume "n < 10"
  then have "n \<in> {0, 1, 2, 3, 4, 5, 6, 7, 8, 9}" by auto
  then show ?thesis
    by (auto simp: digit_val_def digit_char_def upt_conv_Cons)
qed

lemma digit_char_not_special:
  "n < 10 \<Longrightarrow> digit_char n \<noteq> CHR ''.'' \<and> digit_char n \<noteq> CHR ''-'' \<and> digit_char n \<noteq> CHR ''+''"
proof -
  assume "n < 10"
  then have "n \<in> {0, 1, 2, 3, 4, 5, 6, 7, 8, 9}" by auto
  then show ?thesis
    by (auto simp: digit_char_def)
qed

lemma digits_value_snoc:
  "digits_value acc (cs @ [c]) =
     (case digits_value acc cs of
        None \<Rightarrow> None
      | Some v \<Rightarrow> (case digit_val c of None \<Rightarrow> None | Some d \<Rightarrow> Some (10 * v + d)))"
  by (induction cs arbitrary: acc) (auto split: option.splits)

lemma digits_value_str_nat: "digits_value 0 (str_nat n) = Some n"
proof (induction n rule: str_nat.induct)
  case (1 n)
  show ?case
  proof (cases "n < 10")
    case True
    then show ?thesis
      by (subst str_nat.simps) (simp add: digit_val_digit_char)
  next
    case False
    with 1 have "digits_value 0 (str_nat (n div 10)) = Some (n div 10)" by simp
    with False show ?thesis
      by (subst str_nat.simps) (simp add: digits_value_snoc digit_val_digit_char)
  qed
qed

lemma digits_value_zfill: "digits_value 0 (zfill w n) = Some (n mod 10 ^ w)"
proof (induction w arbitrary: n)
  case 0
  show ?case by simp
next
  case (Suc w)
  have "10 * (n div 10 mod 10 ^ w) + n mod 10 = n mod (10 * 10 ^ w)"
    by (simp add: mod_mult2_eq)
  with Suc [of "n div 10"] show ?case
    by (simp add: digits_value_snoc digit_val_digit_char)
qed

lemma length_zfill: "length (zfill w n) = w"
  by (induction w arbitrary: n) auto

lemma str_nat_digits: "c \<in> set (str_nat n) \<Longrightarrow> \<exists>k<10. c = digit_char k"
proof (induction n rule: str_nat.induct)
  case (1 n)
  show ?case
  proof (cases "n < 10")
    case True
    with 1(2) show ?thesis
      by (subst (asm) str_nat.simps) auto
  next
    case False
    with 1(2) have "c \<in> set (str_nat (n div 10)) \<or> c = digit_char (n mod 10)"
      by (subst (asm) str_nat.simps) auto
    with 1(1) False show ?thesis
      by (metis mod_less_divisor zero_less_numeral)
  qed
qed


lemma str_nat_not_Nil: "str_nat n \<noteq> []"
  by (subst str_nat.simps) simp

lemma str_nat_hd: "\<exists>k<10. \<exists>cs. str_nat n = digit_char k # cs"
proof -
  obtain c cs where eq: "str_nat n = c # cs"
    using str_nat_not_Nil [of n] by (cases "str_nat n") auto
  then have "c \<in> set (str_nat n)" by simp
  from str_nat_digits [OF this] eq show ?thesis by blast
qed

lemma split_sign_str_nat: "split_sign (str_nat n @ cs) = (False, str_nat n @ cs)"
proof -
  obtain k ds where "k < 10" "str_nat n = digit_char k # ds"
    using str_nat_hd by blast
  then show ?thesis
    by (simp add: split_sign_def digit_char_not_special)
qed


lemma takeWhile_str_nat_dot:
  "takeWhile (\<lambda>c. c \<noteq> CHR ''.'') (str_nat n @ CHR ''.'' # cs) = str_nat n"
  "dropWhile (\<lambda>c. c \<noteq> CHR ''.'') (str_nat n @ CHR ''.'' # cs) = CHR ''.'' # cs"
proof -
  have "\<forall>c\<in>set (str_nat n). c \<noteq> CHR ''.''"
  proof
    fix c assume "c \<in> set (str_nat n)"
    then obtain k where "k < 10" "c = digit_char k"
      using str_nat_digits by blast
    then show "c \<noteq> CHR ''.''" by (simp add: digit_char_not_special)
  qed
  then show "takeWhile (\<lambda>c. c \<noteq> CHR ''.'') (str_nat n @ CHR ''.'' # cs) = str_nat n"
    "dropWhile (\<lambda>c. c \<noteq> CHR ''.'') (str_nat n @ CHR ''.'' # cs) = CHR ''.'' # cs"
    by (simp_all add: takeWhile_append2 dropWhile_append2)
qed

lemma py_float_unsigned:
  "py_float (str_nat a @ CHR ''.'' # zfill d b) =
     Inr (real a + real (b mod 10 ^ d) / 10 ^ d)"
  using split_sign_str_nat [of a "CHR ''.'' # zfill d b"]
  by (simp add: py_float_def takeWhile_str_nat_dot str_nat_not_Nil
      digits_value_str_nat digits_value_zfill length_zfill)

lemma py_float_negative:
  "py_float (CHR ''-'' # str_nat a @ CHR ''.'' # zfill d b) =
     Inr (- (real a + real (b mod 10 ^ d) / 10 ^ d))"
  by (simp add: py_float_def split_sign_def takeWhile_str_nat_dot str_nat_not_Nil
      digits_value_str_nat digits_value_zfill length_zfill)

lemma div_mod_pow_real:
  "real (n div 10 ^ d) + real (n mod 10 ^ d) / 10 ^ d = real n / 10 ^ d"
proof -
  have "n = n div 10 ^ d * 10 ^ d + n mod 10 ^ d"
    by (rule div_mult_mod_eq [symmetric])
  then have "real n = real (n div 10 ^ d * 10 ^ d + n mod 10 ^ d)" by simp
  then have "real n = real (n div 10 ^ d) * 10 ^ d + real (n mod 10 ^ d)"
    by (simp only: of_nat_add of_nat_mult of_nat_power of_nat_numeral)
  then show ?thesis by (simp add: field_simps)
qed

lemma py_float_format_f: "py_float (format_f d x) = Inr (round_dp d x)"
proof (cases "x < 0")
  case True
  then show ?thesis
    using py_float_negative [of "nat (round_half_even (\<bar>x\<bar> * 10 ^ d)) div 10 ^ d" d
        "nat (round_half_even (\<bar>x\<bar> * 10 ^ d)) mod 10 ^ d"]
      div_mod_pow_real [of "nat (round_half_even (\<bar>x\<bar> * 10 ^ d))" d]
    by (simp add: format_f_def round_dp_def Let_def)
next
  case False
  then show ?thesis
    using py_float_unsigned [of "nat (round_half_even (\<bar>x\<bar> * 10 ^ d)) div 10 ^ d" d
        "nat (round_half_even (\<bar>x\<bar> * 10 ^ d)) mod 10 ^ d"]
      div_mod_pow_real [of "nat (round_half_even (\<bar>x\<bar> * 10 ^ d))" d]
    by (simp add: format_f_def round_dp_def Let_def)
qed

lemma round_half_even_bounds:
  "\<bar>real_of_int (round_half_even x) - x\<bar> \<le> 1 / 2"
  unfolding round_half_even_def Let_def
  by (auto simp: abs_le_iff)

lemma round_half_even_nonneg: "0 \<le> x \<Longrightarrow> 0 \<le> round_half_even x"
  unfolding round_half_even_def Let_def by auto

lemma round_dp_close: "\<bar>round_dp d x - x\<bar> \<le> 1 / (2 * 10 ^ d)"
proof -
  define y where "y = \<bar>x\<bar> * 10 ^ d"
  define r where "r = round_half_even y"
  have y0: "0 \<le> y" by (simp add: y_def)
  then have r0: "0 \<le> r" unfolding r_def by (rule round_half_even_nonneg)
  have close: "\<bar>real_of_int r - y\<bar> \<le> 1 / 2"
    unfolding r_def by (rule round_half_even_bounds)
  have rn: "real (nat r) = real_of_int r" using r0 by simp
  have "round_dp d x - x = (if x < 0 then - 1 else 1) * ((real_of_int r - y) / 10 ^ d)"
    by (simp add: round_dp_def r_def [symmetric] y_def [symmetric] rn)
       (simp add: y_def field_simps)
  then have "\<bar>round_dp d x - x\<bar> = \<bar>real_of_int r - y\<bar> / 10 ^ d"
    by (simp add: abs_mult)
  also have "\<dots> \<le> (1 / 2) / 10 ^ d"
    using close by (rule divide_right_mono) simp
  finally show ?thesis by simp
qed

section \<open>Properties of the selection modes\<close>

lemma set_set_union_list: "set (set_union_list a b) = set a \<union> set b"
  by (simp add: set_union_list_def)

lemma set_set_difference_list: "set (set_difference_list a b) = set a - set b"
  by (auto simp: set_difference_list_def)

lemma evaluate_temp_items_toggle:
  assumes "mode v = Some ''toggle''"
  shows "\<exists>v'. evaluate_temp_items v c = Inr v' \<and> mode v' = Some ''toggle'' \<and>
           set (old_sel_items v') =
             (set (old_sel_items v) - set c) \<union> (set c - set (old_sel_items v))"
  using assms
  by (auto simp: evaluate_temp_items_def Let_def set_set_union_list
      set_set_difference_list)

text \<open>
  C4, as the code has it. A left-button press enters the mode given by the modifier
  flags: Shift+Control gives add, Shift alone gives toggle, Control alone gives
  subtract, and every other combination (no modifier among them) gives replace.
\<close>

theorem mousePressEvent_left_mode:
  assumes "button event = LeftButton"
  shows "mode (mousePressEvent v event) =
           Some (if modifiers event = {ShiftModifier, ControlModifier} then ''add''
                 else if modifiers event = {ShiftModifier} then ''toggle''
                 else if modifiers event = {ControlModifier} then ''subtract''
                 else ''replace'')"
  using assms
  by (simp add: mousePressEvent_def Let_def ctrl_shift_left_click_def
      shift_left_click_def ctrl_click_def leftMouseButtonPress_def)

theorem mousePressEvent_left_mode_witness:
  "mode (mousePressEvent
           \<lparr>mode = None, drag = False, dragMode = RubberBandDrag,
            initial_mouse_pos = None, old_sel_items = ([] :: nat option list)\<rparr>
           \<lparr>button = LeftButton, modifiers = {ControlModifier},
            event_pos = (3, 4), itemAt = NoItem\<rparr>) = Some ''subtract''"
  using mousePressEvent_left_mode
    [of "\<lparr>button = LeftButton, modifiers = {ControlModifier},
          event_pos = (3, 4), itemAt = NoItem\<rparr>"
        "\<lparr>mode = None, drag = False, dragMode = RubberBandDrag,
          initial_mouse_pos = None, old_sel_items = ([] :: nat option list)\<rparr>"]
  by simp

text \<open>
  C4 as the specification words it fails: it says that Shift selects Subtract. A
  left press with Shift alone enters toggle.
\<close>

theorem mousePressEvent_shift_counterexample:
  "mode (mousePressEvent
           \<lparr>mode = None, drag = False, dragMode = RubberBandDrag,
            initial_mouse_pos = None, old_sel_items = ([] :: nat option list)\<rparr>
           \<lparr>button = LeftButton, modifiers = {ShiftModifier},
            event_pos = (0, 0), itemAt = NoItem\<rparr>) = Some ''toggle'' \<and>
   mode (mousePressEvent
           \<lparr>mode = None, drag = False, dragMode = RubberBandDrag,
            initial_mouse_pos = None, old_sel_items = ([] :: nat option list)\<rparr>
           \<lparr>button = LeftButton, modifiers = {ShiftModifier},
            event_pos = (0, 0), itemAt = NoItem\<rparr>) \<noteq> Some ''subtract''"
  by (simp add: mousePressEvent_def Let_def shift_left_click_def)

text \<open>
  C5. In toggle mode, merging the same items twice gives back the selection it started
  from, as a set: both calls return, and the second result has the elements of
  \<open>old_sel_items\<close> before the first call.
\<close>

theorem evaluate_temp_items_toggle_twice:
  assumes "mode v = Some ''toggle''"
  shows "\<exists>v1 v2. evaluate_temp_items v changed_items = Inr v1 \<and>
           evaluate_temp_items v1 changed_items = Inr v2 \<and>
           set (old_sel_items v2) = set (old_sel_items v)"
proof -
  from evaluate_temp_items_toggle [OF assms, of changed_items]
  obtain v1 where v1: "evaluate_temp_items v changed_items = Inr v1"
    "mode v1 = Some ''toggle''"
    "set (old_sel_items v1) =
       (set (old_sel_items v) - set changed_items) \<union>
       (set changed_items - set (old_sel_items v))"
    by blast
  from evaluate_temp_items_toggle [OF v1(2), of changed_items]
  obtain v2 where v2: "evaluate_temp_items v1 changed_items = Inr v2"
    "set (old_sel_items v2) =
       (set (old_sel_items v1) - set changed_items) \<union>
       (set changed_items - set (old_sel_items v1))"
    by blast
  have "set (old_sel_items v2) = set (old_sel_items v)"
    unfolding v2(2) v1(3) by blast
  with v1(1) v2(1) show ?thesis by blast
qed

theorem evaluate_temp_items_toggle_twice_witness:
  "\<exists>v1 v2.
     evaluate_temp_items
       \<lparr>mode = Some ''toggle'', drag = False, dragMode = RubberBandDrag,
        initial_mouse_pos = None, old_sel_items = [Some (1::nat), Some 2]\<rparr>
       [Some 2, Some 3, None] = Inr v1 \<and>
     evaluate_temp_items v1 [Some 2, Some 3, None] = Inr v2 \<and>
     set (old_sel_items v2) = {Some 1, Some 2}"
  using evaluate_temp_items_toggle_twice
    [of "\<lparr>mode = Some ''toggle'', drag = False, dragMode = RubberBandDrag,
          initial_mouse_pos = None, old_sel_items = [Some (1::nat), Some 2]\<rparr>"
        "[Some 2, Some 3, None]"]
  by simp

section \<open>Properties of the buttons\<close>

lemma find_min_max_constant:
  assumes "py_float sa = Inr ra" and "py_float sb = Inr rb"
    and "\<forall>p\<in>set pts. p = (sa, sb)"
  shows "find_min_max pts (Some (ra, ra), Some (rb, rb)) =
           Inr (Some (ra, ra), Some (rb, rb))"
  using assms(3)
  by (induction pts) (simp_all add: assms(1,2) min_max_step_def)

lemma normalize_points_constant:
  assumes "py_float sa = Inr ra" and "py_float sb = Inr rb"
    and "pts \<noteq> []" and "\<forall>p\<in>set pts. p = (sa, sb)"
  shows "normalize_points pts = Inl ZeroDivisionError"
proof -
  from assms(3,4) obtain rest where pts: "pts = (sa, sb) # rest"
    and rest: "\<forall>p\<in>set rest. p = (sa, sb)"
    by (cases pts) auto
  have "find_min_max pts (None, None) = Inr (Some (ra, ra), Some (rb, rb))"
    using find_min_max_constant [OF assms(1,2) rest]
    by (simp add: pts assms(1,2) min_max_step_def)
  then show ?thesis
    by (simp add: normalize_points_def)
qed

text \<open>
  C10. The division by the longer side of the sampled curve is not guarded. When one
  curve is selected and every sampled point has the same x and the same z coordinate
  (the two that the function keeps), both sides are zero and
  \<open>get_shape_from_scene\<close> raises \<open>ZeroDivisionError\<close> instead of updating the
  preview shape.
\<close>

theorem get_shape_from_scene_zero_division:
  assumes "samples \<noteq> []"
    and "\<forall>p\<in>set samples. fst p = x \<and> snd (snd p) = y"
  shows "snd (get_shape_from_scene [curve] samples pp_item) = Inl ZeroDivisionError"
proof -
  let ?pts = "map (\<lambda>coordinates. (format_f 3 (fst coordinates),
                                      format_f 3 (snd (snd coordinates)))) samples"
  have "?pts \<noteq> []" using assms(1) by simp
  moreover have "\<forall>p\<in>set ?pts. p = (format_f 3 x, format_f 3 y)"
    using assms(2) by auto
  ultimately have "normalize_points ?pts = Inl ZeroDivisionError"
    using normalize_points_constant [OF py_float_format_f py_float_format_f] by blast
  then show ?thesis
    by (simp add: get_shape_from_scene_def get_selected_items_def)
qed

theorem get_shape_from_scene_zero_division_witness:
  "snd (get_shape_from_scene [''curve1''] [(1, 5, 2), (1, 7, 2)]
          (GraphicsButton None no_kwargs)) = Inl ZeroDivisionError"
  using get_shape_from_scene_zero_division
    [of "[(1, 5, 2), (1, 7, 2)]" 1 2 "''curve1''" "GraphicsButton None no_kwargs"]
  by simp

text \<open>
  C9, as the code has it. A resize of the bounding rectangle never changes the stored
  coordinates \<open>curr_coords\<close>, whatever the shape, and neither does
  \<open>update_polygon\<close> called without coordinates. For a Custom shape that has at least
  one stored coordinate, a resize to a rectangle that is not null makes that rectangle
  the bounding rectangle and sets the polygon to the stored coordinates, x scaled by
  width / 25 and y scaled by height / 25.
\<close>

theorem update_bounding_rect_custom:
  "curr_coords (update_bounding_rect b new_rect) = curr_coords b \<and>
   curr_coords (update_polygon b None) = curr_coords b \<and>
   (curr_shape b = ''Custom'' \<and> curr_coords b \<noteq> [] \<and>
    new_rect = Some r \<and> \<not> qrect_isNull r \<longrightarrow>
      set_rect (update_bounding_rect b new_rect) = r \<and>
      set_polygon (update_bounding_rect b new_rect) =
        map (\<lambda>p. (fst p * (real_of_int (rect_width r) / 25),
                     snd p * (real_of_int (rect_height r) / 25))) (curr_coords b))"
  by (auto simp: update_bounding_rect_def update_polygon_def scale_coords_def
      SHAPES_def MINIMUM_SIZE_def split: option.splits)

theorem update_bounding_rect_custom_witness:
  "set_polygon (update_bounding_rect
      (GraphicsButton None (no_kwargs\<lparr>kw_curr_shape := Some ''Custom''\<rparr>))
      (Some (QRect 0 0 50 100))) = [(0, 0), (50, 0), (50, 100), (0, 100)]"
  using update_bounding_rect_custom
    [of "GraphicsButton None (no_kwargs\<lparr>kw_curr_shape := Some ''Custom''\<rparr>)"
        "Some (QRect 0 0 50 100)" "QRect 0 0 50 100"]
  by (simp add: GraphicsButton_def no_kwargs_def setdefault_def QRect_def
      qrect_isNull_def MINIMUM_SIZE_def Let_def)

text \<open>
  C9 as the specification words it, for every Custom shape, fails on a Custom shape
  without stored coordinates: \<open>update_polygon\<close> returns before it touches the
  polygon, so after the resize the polygon is the one the shape had, not the (empty)
  list of scaled coordinates.
\<close>

theorem update_bounding_rect_empty_coords_counterexample:
  "curr_shape (GraphicsButton None
       (no_kwargs\<lparr>kw_curr_shape := Some ''Custom'', kw_curr_coords := Some [],
          kw_set_polygon := Some [(0, 0), (5, 0), (5, 5), (0, 5), (0, 0)]\<rparr>)) = ''Custom'' \<and>
   set_polygon (update_bounding_rect
     (GraphicsButton None
       (no_kwargs\<lparr>kw_curr_shape := Some ''Custom'', kw_curr_coords := Some [],
          kw_set_polygon := Some [(0, 0), (5, 0), (5, 5), (0, 5), (0, 0)]\<rparr>))
     (Some (QRect 0 0 50 100))) = [(0, 0), (5, 0), (5, 5), (0, 5), (0, 0)] \<and>
   set_polygon (update_bounding_rect
     (GraphicsButton None
       (no_kwargs\<lparr>kw_curr_shape := Some ''Custom'', kw_curr_coords := Some [],
          kw_set_polygon := Some [(0, 0), (5, 0), (5, 5), (0, 5), (0, 0)]\<rparr>))
     (Some (QRect 0 0 50 100))) \<noteq>
   map (\<lambda>p. (fst p * (50 / 25), snd p * (100 / 25)))
     (curr_coords (update_bounding_rect
     (GraphicsButton None
       (no_kwargs\<lparr>kw_curr_shape := Some ''Custom'', kw_curr_coords := Some [],
          kw_set_polygon := Some [(0, 0), (5, 0), (5, 5), (0, 5), (0, 0)]\<rparr>))
     (Some (QRect 0 0 50 100))))"
  by (simp add: update_bounding_rect_def update_polygon_def GraphicsButton_def
      no_kwargs_def setdefault_def QRect_def qrect_isNull_def SHAPES_def Let_def)

section \<open>Properties of the double arithmetic\<close>

lemma round_half_even_of_int: "round_half_even (real_of_int n) = n"
  by (simp add: round_half_even_def)

lemma fl_scaled:
  assumes "x \<noteq> 0"
  shows "\<exists>e. e = max (\<lfloor>log 2 \<bar>x\<bar>\<rfloor> - 52) (- 1074) \<and>
          fl x = real_of_int (round_half_even (x / 2 powr real_of_int e)) * 2 powr real_of_int e"
  using assms by (simp add: fl_def Let_def)

lemma fl_error: "\<bar>fl x - x\<bar> \<le> \<bar>x\<bar> / 2 ^ 53 + 1 / 2 ^ 1075"
proof (cases "x = 0")
  case True
  then show ?thesis by (simp add: fl_def)
next
  case False
  define e where "e = max (\<lfloor>log 2 \<bar>x\<bar>\<rfloor> - 52) (- 1074)"
  define s where "s = 2 powr real_of_int e"
  have s0: "0 < s" by (simp add: s_def)
  have fl: "fl x = real_of_int (round_half_even (x / s)) * s"
    using False by (simp add: fl_def Let_def e_def s_def)
  have "\<bar>real_of_int (round_half_even (x / s)) - x / s\<bar> \<le> 1 / 2"
    by (rule round_half_even_bounds)
  then have "\<bar>real_of_int (round_half_even (x / s)) - x / s\<bar> * s \<le> (1 / 2) * s"
    using s0 by (simp add: mult_right_mono)
  moreover have "\<bar>real_of_int (round_half_even (x / s)) - x / s\<bar> * s = \<bar>fl x - x\<bar>"
  proof -
    have "fl x - x = (real_of_int (round_half_even (x / s)) - x / s) * s"
      using s0 by (simp add: fl field_simps)
    then show ?thesis using s0 by (simp add: abs_mult)
  qed
  ultimately have err: "\<bar>fl x - x\<bar> \<le> s / 2" by simp
  show ?thesis
  proof (cases "\<lfloor>log 2 \<bar>x\<bar>\<rfloor> - 52 \<ge> - 1074")
    case True
    then have "e = \<lfloor>log 2 \<bar>x\<bar>\<rfloor> - 52" by (simp add: e_def)
    then have "real_of_int e \<le> log 2 \<bar>x\<bar> - 52" by simp
    then have "s \<le> 2 powr (log 2 \<bar>x\<bar> - 52)"
      unfolding s_def by (simp add: powr_mono)
    also have "\<dots> = \<bar>x\<bar> / 2 ^ 52"
      using False by (simp add: powr_diff powr_realpow [symmetric])
    finally have "s / 2 \<le> \<bar>x\<bar> / 2 ^ 53" by simp
    moreover have "(0::real) \<le> 1 / 2 ^ 1075" by simp
    ultimately show ?thesis using err by linarith
  next
    case False
    then have "e = - 1074" by (simp add: e_def)
    then have "s = 1 / 2 ^ 1074"
      by (simp add: s_def powr_minus powr_realpow [symmetric] divide_simps)
    then have "s / 2 = 1 / 2 ^ 1075" by simp
    moreover have "0 \<le> \<bar>x\<bar> / 2 ^ 53" by simp
    ultimately show ?thesis using err by linarith
  qed
qed

lemma fl_eval:
  assumes "2 ^ 52 \<le> \<bar>x\<bar> * 2 ^ k" and "\<bar>x\<bar> * 2 ^ k < 2 ^ 53" and "k \<le> 1074"
  shows "fl x = real_of_int (round_half_even (x * 2 ^ k)) / 2 ^ k"
proof -
  have x0: "x \<noteq> 0" using assms(1) by auto
  have pos: "0 < \<bar>x\<bar>" using x0 by simp
  have lg: "log 2 \<bar>x\<bar> = log 2 (\<bar>x\<bar> * 2 ^ k) - real k"
    using pos by (simp add: log_mult log_nat_power)
  have "52 \<le> log 2 (\<bar>x\<bar> * 2 ^ k)"
    using assms(1) pos
    by (metis le_log_iff one_less_numeral_iff powr_realpow semiring_norm(76)
        zero_less_numeral mult_pos_pos zero_less_power of_nat_numeral)
  moreover have "log 2 (\<bar>x\<bar> * 2 ^ k) < 53"
    using assms(2) pos
    by (metis log_less_iff one_less_numeral_iff powr_realpow semiring_norm(76)
        zero_less_numeral mult_pos_pos zero_less_power of_nat_numeral)
  ultimately have "\<lfloor>log 2 (\<bar>x\<bar> * 2 ^ k)\<rfloor> = 52"
    by (simp add: floor_eq_iff)
  then have "\<lfloor>log 2 \<bar>x\<bar>\<rfloor> = 52 - int k"
    unfolding lg by (simp add: floor_eq_iff) 
  then have e: "max (\<lfloor>log 2 \<bar>x\<bar>\<rfloor> - 52) (- 1074) = - int k"
    using assms(3) by simp
  have s: "2 powr real_of_int (- int k) = 1 / 2 ^ k"
    by (simp add: powr_minus powr_realpow divide_simps)
  show ?thesis
    using x0 by (simp add: fl_def Let_def e s del: of_int_minus)
qed

lemma fl_exact:
  assumes "\<bar>m\<bar> < 2 ^ 53" and "k \<le> 1074"
  shows "fl (real_of_int m / 2 ^ k) = real_of_int m / 2 ^ k"
proof (cases "m = 0")
  case True
  then show ?thesis by (simp add: fl_def)
next
  case False
  define x where "x = real_of_int m / 2 ^ k"
  define e where "e = max (\<lfloor>log 2 \<bar>x\<bar>\<rfloor> - 52) (- 1074)"
  have x0: "x \<noteq> 0" using False by (simp add: x_def)
  have mpos: "0 < \<bar>real_of_int m\<bar>" using False by simp
  have "\<bar>real_of_int m\<bar> < 2 ^ 53"
    using assms(1) by (metis of_int_abs of_int_less_numeral_power_cancel_iff)
  then have "log 2 \<bar>real_of_int m\<bar> < 53"
    using mpos
    by (metis log_less_iff one_less_numeral_iff powr_realpow semiring_norm(76)
        zero_less_numeral of_nat_numeral)
  moreover have "log 2 \<bar>x\<bar> = log 2 \<bar>real_of_int m\<bar> - real k"
    using mpos by (simp add: x_def abs_divide log_divide log_nat_power)
  ultimately have "log 2 \<bar>x\<bar> < 53 - real k" by simp
  then have "\<lfloor>log 2 \<bar>x\<bar>\<rfloor> < 53 - int k"
    by (simp add: floor_less_iff)
  then have ek: "e \<le> - int k" using assms(2) by (simp add: e_def)
  define j where "j = nat (- e)"
  have je: "e = - int j" and jk: "k \<le> j" using ek by (simp_all add: j_def)
  have "2 powr real_of_int (- int j) = 1 / 2 ^ j"
    by (simp add: powr_minus powr_realpow divide_simps)
  then have s: "2 powr real_of_int e = 1 / 2 ^ j"
    unfolding je .
  have "(2::real) ^ j = 2 ^ (j - k) * 2 ^ k"
    using jk by (simp add: power_add [symmetric])
  then have q: "x / (1 / 2 ^ j) = real_of_int (m * 2 ^ (j - k))"
    by (simp add: x_def)
  have "fl x = real_of_int (round_half_even (x / (1 / 2 ^ j))) * (1 / 2 ^ j)"
    using x0 by (simp add: fl_def Let_def e_def [symmetric] s)
  also have "\<dots> = real_of_int (m * 2 ^ (j - k)) * (1 / 2 ^ j)"
    unfolding q round_half_even_of_int ..
  also have "\<dots> = x"
    using q by (simp add: field_simps)
  finally show ?thesis by (simp add: x_def)
qed

lemma round_half_even_near:
  assumes "\<bar>y - real_of_int m\<bar> < 1 / 2 \<or> (\<bar>y - real_of_int m\<bar> = 1 / 2 \<and> even m)"
  shows "round_half_even y = m"
proof -
  consider "\<bar>y - real_of_int m\<bar> < 1 / 2" | "y = real_of_int m + 1 / 2" "even m"
    | "y = real_of_int m - 1 / 2" "even m"
    using assms by (auto simp: abs_if split: if_splits)
  then show ?thesis
  proof cases
    case 1
    then have "\<lfloor>y\<rfloor> = m \<or> \<lfloor>y\<rfloor> = m - 1"
      by (auto simp: floor_eq_iff abs_less_iff)
    then show ?thesis
      using 1 unfolding round_half_even_def Let_def
      by (auto simp: abs_less_iff)
  next
    case 2
    have "\<lfloor>y\<rfloor> = m" unfolding 2(1) by (simp add: floor_eq_iff)
    then show ?thesis
      using 2 unfolding round_half_even_def Let_def by simp
  next
    case 3
    have "\<lfloor>y\<rfloor> = m - 1" unfolding 3(1) by (simp add: floor_eq_iff)
    then show ?thesis
      using 3 unfolding round_half_even_def Let_def by simp
  qed
qed

lemma fl_near:
  assumes "2 ^ 52 \<le> \<bar>x\<bar> * 2 ^ k" and "\<bar>x\<bar> * 2 ^ k < 2 ^ 53" and "k \<le> 1074"
    and "\<bar>x * 2 ^ k - real_of_int m\<bar> < 1 / 2 \<or>
         (\<bar>x * 2 ^ k - real_of_int m\<bar> = 1 / 2 \<and> even m)"
  shows "fl x = real_of_int m / 2 ^ k"
  using fl_eval [OF assms(1-3)] round_half_even_near [OF assms(4)] by simp

lemma fl_0 [simp]: "fl 0 = 0"
  by (simp add: fl_def)

lemma fl_error_le:
  assumes "\<bar>x\<bar> \<le> B"
  shows "\<bar>fl x - x\<bar> \<le> B / 9007199254740992 + 1 / 2 ^ 1075"
proof -
  have "\<bar>x\<bar> / 9007199254740992 \<le> B / 9007199254740992"
    using assms by (rule divide_right_mono) simp
  moreover have "\<bar>fl x - x\<bar> \<le> \<bar>x\<bar> / 9007199254740992 + 1 / 2 ^ 1075"
    using fl_error [of x] by simp
  ultimately show ?thesis by linarith
qed

lemma center_round_trip:
  assumes "\<bar>t\<bar> + \<bar>h\<bar> \<le> M"
  shows "\<bar>fadd (fsub t h) h - t\<bar> \<le> 3 * M / 9007199254740992 + 3 / 2 ^ 1075"
proof -
  define p where "p = fl (t - h)"
  define c where "c = fl (p + h)"
  define n :: real where "n = 1 / 2 ^ 1075"
  define E1 where "E1 = \<bar>p - (t - h)\<bar>"
  define E2 where "E2 = \<bar>c - (p + h)\<bar>"
  have n0: "0 \<le> n" by (simp add: n_def)
  have M0: "0 \<le> M" using assms by linarith
  have "\<bar>t - h\<bar> \<le> M" using assms by linarith
  then have e1: "E1 \<le> M / 9007199254740992 + n"
    unfolding E1_def p_def n_def by (rule fl_error_le)
  have "\<bar>p + h\<bar> \<le> M + E1" using assms unfolding E1_def by linarith
  then have e2: "E2 \<le> (M + E1) / 9007199254740992 + n"
    unfolding E2_def c_def n_def by (rule fl_error_le)
  define D where "D = \<bar>c - t\<bar>"
  have "D \<le> E2 + E1" unfolding D_def E1_def E2_def by linarith
  with e1 e2 M0 n0 have "D \<le> 3 * M / 9007199254740992 + 3 * n"
    by (simp add: field_simps)
  then show ?thesis by (simp add: D_def fadd_def fsub_def p_def c_def n_def)
qed

lemma center_two_round_trips:
  assumes "c1 = fadd (fsub t1 h) h" and "c2 = fadd (fsub t2 h) h"
    and "(t1 = c \<and> t2 = c1) \<or> (t1 = - c \<and> t2 = - c1)"
  shows "\<bar>c2 - c\<bar> \<le> (\<bar>c\<bar> + \<bar>h\<bar>) / 2 ^ 50 + 1 / 2 ^ 1072"
proof -
  define n :: real where "n = 1 / 2 ^ 1075"
  define M where "M = \<bar>c\<bar> + \<bar>h\<bar>"
  define D1 where "D1 = \<bar>c1 - t1\<bar>"
  define D2 where "D2 = \<bar>c2 - t2\<bar>"
  have n0: "0 \<le> n" by (simp add: n_def)
  have M0: "0 \<le> M" by (simp add: M_def)
  have "\<bar>t1\<bar> + \<bar>h\<bar> \<le> M" using assms(3) unfolding M_def by linarith
  then have d1: "D1 \<le> 3 * M / 9007199254740992 + 3 * n"
    unfolding D1_def n_def assms(1) using center_round_trip [of t1 h M] by simp
  have "\<bar>t2\<bar> + \<bar>h\<bar> \<le> M + D1"
    using assms(3) unfolding M_def D1_def by linarith
  then have d2: "D2 \<le> 3 * (M + D1) / 9007199254740992 + 3 * n"
    unfolding D2_def n_def assms(2) using center_round_trip [of t2 h "M + D1"] by simp
  define D where "D = \<bar>c2 - c\<bar>"
  have "D \<le> D2 + D1"
    using assms(3) unfolding D_def D1_def D2_def by linarith
  with d1 d2 M0 n0 have "D \<le> M / 1125899906842624 + 8 * n"
    by (simp add: field_simps)
  moreover have "8 * n = 1 / 2 ^ 1072" by (simp add: n_def)
  ultimately have "D \<le> M / 2 ^ 50 + 1 / 2 ^ 1072" by simp
  then show ?thesis unfolding D_def M_def .
qed

text \<open>
  The values of the examples below, each the nearest double of the exact result.
\<close>

lemma half_25: "fdiv (float_of_int 25) 2 = 25 / 2"
  using fl_exact [of 25 0] fl_exact [of 25 1] by (simp add: fdiv_def float_of_int_def)

lemma half_30: "fdiv (float_of_int 30) 2 = 15"
  using fl_exact [of 30 0] fl_exact [of 15 0] by (simp add: fdiv_def float_of_int_def)

lemma float_of_int_2: "float_of_int 2 = 2"
  using fl_exact [of 2 0] by (simp add: float_of_int_def)

lemma tenth_center:
  "fadd (3602879701896397 / 36028797018963968) (25 / 2) =
     7093169413108531 / 562949953421312"
  using fl_near [of "(3602879701896397 / 36028797018963968) + (25 / 2)" 49 "7093169413108531"]
  by (simp add: fadd_def)

lemma tenth_moved:
  "fsub (- (7093169413108531 / 562949953421312)) (25 / 2) =
     - (3532510957718733 / 140737488355328)"
  using fl_near [of "(- (7093169413108531 / 562949953421312)) - (25 / 2)"
      48 "- 7065021915437466"]
  by (simp add: fsub_def)

lemma tenth_moved_center:
  "fadd (- (3532510957718733 / 140737488355328)) (25 / 2) =
     - (1773292353277133 / 140737488355328)"
  using fl_near [of "(- (3532510957718733 / 140737488355328)) + (25 / 2)"
      49 "- 7093169413108532"]
  by (simp add: fadd_def)

lemma tenth_moved_twice:
  "fsub (1773292353277133 / 140737488355328) (25 / 2) =
     14073748835533 / 140737488355328"
  using fl_near [of "(1773292353277133 / 140737488355328) - (25 / 2)" 56 "7205759403792896"]
  by (simp add: fsub_def)

lemma tenth_moved_twice_center:
  "fadd (14073748835533 / 140737488355328) (25 / 2) =
     1773292353277133 / 140737488355328"
  using fl_near [of "(14073748835533 / 140737488355328) + (25 / 2)" 49 "7093169413108532"]
  by (simp add: fadd_def)

lemma zero_center: "fadd 0 (25 / 2) = 25 / 2"
  using fl_near [of "0 + (25 / 2)" 49 "7036874417766400"]
  by (simp add: fadd_def)

lemma zero_moved: "fsub (25 / 2) (25 / 2) = 0"
  by (simp add: fsub_def)

lemma zero_mirrored: "fsub (- (25 / 2)) (25 / 2) = - 25"
  using fl_near [of "(- (25 / 2)) - (25 / 2)" 48 "- 7036874417766400"]
  by (simp add: fsub_def)

lemma zero_mirrored_center: "fadd (- 25) (25 / 2) = - (25 / 2)"
  using fl_near [of "(- 25) + (25 / 2)" 49 "- 7036874417766400"]
  by (simp add: fadd_def)

lemma ten_center: "fadd 10 (25 / 2) = 45 / 2"
  using fl_near [of "10 + (25 / 2)" 48 "6333186975989760"]
  by (simp add: fadd_def)

lemma uneven_center_0: "fadd (- 30) (25 / 2) = - (35 / 2)"
  using fl_near [of "(- 30) + (25 / 2)" 48 "- 4925812092436480"]
  by (simp add: fadd_def)

lemma uneven_center_1:
  "fadd (- (8289438064128819 / 281474976710656)) 15 =
     - (4067313413468979 / 281474976710656)"
  using fl_near [of "(- (8289438064128819 / 281474976710656)) + 15" 49 "- 8134626826937958"]
  by (simp add: fadd_def)

lemma uneven_total_0: "fadd 0 (- (35 / 2)) = - (35 / 2)"
  using fl_near [of "0 + (- (35 / 2))" 48 "- 4925812092436480"]
  by (simp add: fadd_def)

lemma uneven_total:
  "fadd (- (35 / 2)) (- (4067313413468979 / 281474976710656)) =
     - (8993125505905459 / 281474976710656)"
  using fl_near [of "(- (35 / 2)) + (- (4067313413468979 / 281474976710656))"
      48 "- 8993125505905459"]
  by (simp add: fadd_def)

lemma uneven_average:
  "fdiv (- (8993125505905459 / 281474976710656)) 2 =
     - (8993125505905459 / 562949953421312)"
  using fl_near [of "(- (8993125505905459 / 281474976710656)) / 2" 49 "- 8993125505905459"]
  by (simp add: fdiv_def)

lemma uneven_aligned_0:
  "fsub (- (8993125505905459 / 562949953421312)) (25 / 2) =
     - (4007499980917965 / 140737488355328)"
  using fl_near [of "(- (8993125505905459 / 562949953421312)) - (25 / 2)"
      48 "- 8014999961835930"]
  by (simp add: fsub_def)

lemma uneven_aligned_1:
  "fsub (- (8993125505905459 / 562949953421312)) 15 =
     - (4359343701806285 / 140737488355328)"
  using fl_near [of "(- (8993125505905459 / 562949953421312)) - 15" 48 "- 8718687403612570"]
  by (simp add: fsub_def)

lemma uneven_aligned_center_0:
  "fadd (- (4007499980917965 / 140737488355328)) (25 / 2) =
     - (2248281376476365 / 140737488355328)"
  using fl_near [of "(- (4007499980917965 / 140737488355328)) + (25 / 2)"
      49 "- 8993125505905460"]
  by (simp add: fadd_def)

lemma uneven_aligned_center_1:
  "fadd (- (4359343701806285 / 140737488355328)) 15 =
     - (2248281376476365 / 140737488355328)"
  using fl_near [of "(- (4359343701806285 / 140737488355328)) + 15" 49 "- 8993125505905460"]
  by (simp add: fadd_def)

lemma zero_center_15: "fadd 0 15 = 15"
  using fl_exact [of 15 0] by (simp add: fadd_def)

section \<open>Properties of the scene operations\<close>

lemma for_selected_rel:
  assumes "\<And>item. item \<in> set its \<Longrightarrow> item_isSelected item \<Longrightarrow>
             \<exists>item'. body item = Inr item' \<and> R item item'"
  shows "\<exists>its'. for_selected body its = Inr its' \<and>
           list_all2 (\<lambda>item item'. if item_isSelected item then R item item'
                                     else item' = item) its its'"
  using assms
proof (induction its)
  case Nil
  then show ?case by simp
next
  case (Cons item rest)
  from Cons.IH Cons.prems obtain rest' where
    rest: "for_selected body rest = Inr rest'"
    "list_all2 (\<lambda>item item'. if item_isSelected item then R item item'
                               else item' = item) rest rest'"
    by auto
  show ?case
  proof (cases "item_isSelected item")
    case True
    with Cons.prems obtain item' where "body item = Inr item'" "R item item'"
      by auto
    with True rest show ?thesis by simp
  next
    case False
    with rest show ?thesis by simp
  qed
qed

lemma mirror_loop_rel:
  assumes "\<And>item. item \<in> set its \<Longrightarrow> item_isSelected item \<Longrightarrow>
             \<exists>item'. body item = Inr (item', []) \<and> R item item'"
  shows "\<exists>its'. mirror_loop body its = Inr (its', []) \<and>
           list_all2 (\<lambda>item item'. if item_isSelected item then R item item'
                                     else item' = item) its its'"
  using assms
proof (induction its)
  case Nil
  then show ?case by simp
next
  case (Cons item rest)
  from Cons.IH Cons.prems obtain rest' where
    rest: "mirror_loop body rest = Inr (rest', [])"
    "list_all2 (\<lambda>item item'. if item_isSelected item then R item item'
                               else item' = item) rest rest'"
    by auto
  show ?case
  proof (cases "item_isSelected item")
    case True
    with Cons.prems obtain item' where "body item = Inr (item', [])" "R item item'"
      by auto
    with True rest show ?thesis by simp
  next
    case False
    with rest show ?thesis by simp
  qed
qed

lemma update_polygon_keeps:
  "scenePos (update_polygon b cs) = scenePos b"
  "set_rect (update_polygon b cs) = set_rect b"
  "isSelected (update_polygon b cs) = isSelected b"
  "zValue (update_polygon b cs) = zValue b"
  by (simp_all add: update_polygon_def split: option.splits)

lemma moved_button:
  "scenePos (update_polygon (update_bounding_rect (b\<lparr>scenePos := p\<rparr>) (Some r)) cs) = p"
  "isSelected (update_polygon (update_bounding_rect (b\<lparr>scenePos := p\<rparr>) (Some r)) cs) =
     isSelected b"
  "set_rect (update_polygon (update_bounding_rect (b\<lparr>scenePos := p\<rparr>)
     (Some (set_rect b))) cs) = set_rect b"
  by (simp_all add: update_bounding_rect_def update_polygon_keeps)

lemma mirror_item_use_existing:
  "\<exists>b'. mirror_item mx my ''World'' ''Use Existing'' rc (Button b) =
           Inr (Button b', []) \<and>
         isSelected b' = isSelected b \<and>
         set_rect b' = set_rect b \<and>
         scenePos b' =
           (fsub (flip mx (fadd (fst (scenePos b)) (fst (half_extent (Button b)))))
              (fst (half_extent (Button b))),
            fsub (flip my (fadd (snd (scenePos b)) (snd (half_extent (Button b)))))
              (snd (half_extent (Button b))))"
  by (simp add: MIRROR_TYPES_def MIRROR_ONS_def Let_def mirror_center_def moved_button
      flip_def)

lemma center_error_nonneg: "0 \<le> center_error c d"
  by (simp add: center_error_def)

lemma centers_close_refl: "centers_close item item"
  by (simp add: centers_close_def center_error_nonneg split: sum.splits)

lemma flip_twice_close:
  "\<bar>fadd (fsub (flip m (fadd (fsub (flip m c) h) h)) h) h - c\<bar> \<le> center_error c h"
  unfolding center_error_def
  by (rule center_two_round_trips [of "fadd (fsub (flip m c) h) h" "flip m c" h _
        "flip m (fadd (fsub (flip m c) h) h)"])
     (simp_all add: flip_def)

lemma mirrored_item_refl: "mirrored_item False mx my item item"
  by (simp add: mirrored_item_def)

lemma mirror_item_mirrored:
  assumes "is_button item" and "item_isSelected item"
  shows "\<exists>item'. mirror_item mx my ''World'' ''Use Existing'' rc item = Inr (item', []) \<and>
           mirrored_item True mx my item item'"
proof -
  from assms(1) obtain b where item: "item = Button b" by (cases item) auto
  with assms(2) have sel: "isSelected b" by simp
  from mirror_item_use_existing [of mx my rc b] obtain b' where
    b': "mirror_item mx my ''World'' ''Use Existing'' rc (Button b) = Inr (Button b', [])"
    "isSelected b' = isSelected b" "set_rect b' = set_rect b"
    "scenePos b' =
           (fsub (flip mx (fadd (fst (scenePos b)) (fst (half_extent (Button b)))))
              (fst (half_extent (Button b))),
            fsub (flip my (fadd (snd (scenePos b)) (snd (half_extent (Button b)))))
              (snd (half_extent (Button b))))"
    by blast
  have "mirrored_item True mx my (Button b) (Button b')"
    using b'(2,3,4) sel by (simp add: mirrored_item_def)
  with b'(1) item show ?thesis by blast
qed

lemma mirrored_item_selected:
  "mirrored_item a mx my item item' \<Longrightarrow> item_isSelected item' = item_isSelected item"
  by (cases item; cases item') (auto simp: mirrored_item_def split: if_splits)

lemma mirrored_item_button:
  "mirrored_item a mx my item item' \<Longrightarrow> is_button item' = is_button item"
  by (cases item; cases item') (auto simp: mirrored_item_def split: if_splits)

lemma mirrored_items_selection:
  assumes "list_all2 (mirrored_item a mx my) its its'"
  shows "filter item_isSelected its' = [] \<longleftrightarrow> filter item_isSelected its = []"
    and "(\<forall>item\<in>set its. item_isSelected item \<longrightarrow> is_button item) \<Longrightarrow>
         (\<forall>item\<in>set its'. item_isSelected item \<longrightarrow> is_button item)"
  using assms
  by (induction rule: list_all2_induct)
     (auto simp: mirrored_item_selected mirrored_item_button)

lemma mirrored_twice_close:
  assumes "mirrored_item a mx my item item1" and "mirrored_item a mx my item1 item2"
  shows "centers_close item item2 \<and> (\<not> item_isSelected item \<longrightarrow> item2 = item)"
proof (cases "a \<and> item_isSelected item")
  case False
  with assms(1) have "item1 = item" by (simp add: mirrored_item_def)
  with assms(2) False have "item2 = item" by (simp add: mirrored_item_def)
  then show ?thesis by (simp add: centers_close_refl)
next
  case True
  with assms(1) have m1: "button_moved mx my item item1" by (simp add: mirrored_item_def)
  then obtain b b1 where b: "item = Button b" "item1 = Button b1"
    by (cases item; cases item1) auto
  from m1 b have sel1: "item_isSelected item1" by simp
  with assms(2) True have m2: "button_moved mx my item1 item2"
    by (simp add: mirrored_item_def)
  with b obtain b2 where b2: "item2 = Button b2" by (cases item2) auto
  from m1 m2 b b2 show ?thesis
    using True by (simp add: centers_close_def Let_def flip_twice_close)
qed

lemma mirror_sel_btns_step:
  assumes "mirror_on_combo settings = ''World''"
    and "type_combo settings = ''Use Existing''"
    and "\<forall>item\<in>set (scene_items s). item_isSelected item \<longrightarrow> is_button item"
  shows "\<exists>s1. snd (mirror_sel_btns settings s) = Inr s1 \<and>
           list_all2 (mirrored_item
                        (selectedItems s \<noteq> [] \<and> (x_rdbtn settings \<or> y_rdbtn settings))
                        (x_rdbtn settings) (y_rdbtn settings))
             (scene_items s) (scene_items s1)"
proof (cases "selectedItems s \<noteq> [] \<and> (x_rdbtn settings \<or> y_rdbtn settings)")
  case False
  then have "snd (mirror_sel_btns settings s) = Inr s"
    by (auto simp: mirror_sel_btns_def Let_def)
  moreover have "list_all2 (mirrored_item False (x_rdbtn settings) (y_rdbtn settings))
                   (scene_items s) (scene_items s)"
    by (simp add: list_all2_refl mirrored_item_refl)
  ultimately show ?thesis using False by auto
next
  case True
  let ?body = "mirror_item (x_rdbtn settings) (y_rdbtn settings) ''World''
                 ''Use Existing'' (0, 0)"
  have "\<And>item. item \<in> set (scene_items s) \<Longrightarrow> item_isSelected item \<Longrightarrow>
          \<exists>item'. ?body item = Inr (item', []) \<and>
            mirrored_item True (x_rdbtn settings) (y_rdbtn settings) item item'"
    using assms(3) mirror_item_mirrored by blast
  from mirror_loop_rel [of "scene_items s" ?body
      "mirrored_item True (x_rdbtn settings) (y_rdbtn settings)", OF this]
  obtain its' where its': "mirror_loop ?body (scene_items s) = Inr (its', [])"
    "list_all2 (\<lambda>item item'. if item_isSelected item
        then mirrored_item True (x_rdbtn settings) (y_rdbtn settings) item item'
        else item' = item) (scene_items s) its'"
    by blast
  have "list_all2 (mirrored_item True (x_rdbtn settings) (y_rdbtn settings))
          (scene_items s) its'"
    using its'(2)
    by (rule list_all2_mono) (auto simp: mirrored_item_def split: if_splits)
  moreover have "snd (mirror_sel_btns settings s) = Inr (s\<lparr>scene_items := its'\<rparr>)"
    using True assms(1,2) its'(1)
    by (auto simp: mirror_sel_btns_def Let_def MIRROR_ONS_def MIRROR_TYPES_def)
  ultimately show ?thesis using True by auto
qed

text \<open>
  C2. With the mirror settings on the world origin and on moving the existing items,
  and the selected items all buttons, two calls of \<open>mirror_sel_btns\<close> with the same
  axis setting both return; an item that is not selected is as it was, and the centre of
  every item (\<open>get_center\<close>) is within \<open>center_error\<close> of the centre it started
  with, in each coordinate: the centre is restored up to the rounding of the four
  additions and subtractions of half the size, not exactly.
\<close>

theorem mirror_sel_btns_twice_close:
  assumes "mirror_on_combo settings = ''World''"
    and "type_combo settings = ''Use Existing''"
    and "\<forall>item\<in>set (selectedItems s). is_button item"
  shows "\<exists>s1 s2. snd (mirror_sel_btns settings s) = Inr s1 \<and>
           snd (mirror_sel_btns settings s1) = Inr s2 \<and>
           length (scene_items s2) = length (scene_items s) \<and>
           (\<forall>i<length (scene_items s).
              centers_close (scene_items s ! i) (scene_items s2 ! i) \<and>
              (\<not> item_isSelected (scene_items s ! i) \<longrightarrow>
                 scene_items s2 ! i = scene_items s ! i))"
proof -
  let ?mx = "x_rdbtn settings" and ?my = "y_rdbtn settings"
  let ?a = "selectedItems s \<noteq> [] \<and> (?mx \<or> ?my)"
  have btn: "\<forall>item\<in>set (scene_items s). item_isSelected item \<longrightarrow> is_button item"
    using assms(3) by (simp add: selectedItems_def)
  from mirror_sel_btns_step [OF assms(1,2) btn] obtain s1 where
    s1: "snd (mirror_sel_btns settings s) = Inr s1"
    "list_all2 (mirrored_item ?a ?mx ?my) (scene_items s) (scene_items s1)"
    by blast
  have btn1: "\<forall>item\<in>set (scene_items s1). item_isSelected item \<longrightarrow> is_button item"
    using mirrored_items_selection(2) [OF s1(2)] btn by blast
  have a1: "(selectedItems s1 \<noteq> [] \<and> (?mx \<or> ?my)) = ?a"
    using mirrored_items_selection(1) [OF s1(2)] by (simp add: selectedItems_def)
  from mirror_sel_btns_step [OF assms(1,2) btn1] a1 obtain s2 where
    s2: "snd (mirror_sel_btns settings s1) = Inr s2"
    "list_all2 (mirrored_item ?a ?mx ?my) (scene_items s1) (scene_items s2)"
    by auto
  have "list_all2 (\<lambda>item item2. centers_close item item2 \<and>
                     (\<not> item_isSelected item \<longrightarrow> item2 = item))
          (scene_items s) (scene_items s2)"
    using _ s1(2) s2(2)
  proof (rule list_all2_trans)
    fix a b c
    assume "mirrored_item ?a ?mx ?my a b" "mirrored_item ?a ?mx ?my b c"
    then show "centers_close a c \<and> (\<not> item_isSelected a \<longrightarrow> c = a)"
      by (rule mirrored_twice_close)
  qed
  then have "length (scene_items s2) = length (scene_items s)"
    "\<forall>i<length (scene_items s).
       centers_close (scene_items s ! i) (scene_items s2 ! i) \<and>
       (\<not> item_isSelected (scene_items s ! i) \<longrightarrow> scene_items s2 ! i = scene_items s ! i)"
    by (simp_all add: list_all2_conv_all_nth)
  with s1(1) s2(1) show ?thesis by blast
qed

theorem mirror_sel_btns_twice_close_witness:
  "\<exists>s1 s2. snd (mirror_sel_btns example_settings example_scene) = Inr s1 \<and>
           snd (mirror_sel_btns example_settings s1) = Inr s2 \<and>
           length (scene_items s2) = length (scene_items example_scene) \<and>
           (\<forall>i<length (scene_items example_scene).
              centers_close (scene_items example_scene ! i) (scene_items s2 ! i) \<and>
              (\<not> item_isSelected (scene_items example_scene ! i) \<longrightarrow>
                 scene_items s2 ! i = scene_items example_scene ! i))"
  by (rule mirror_sel_btns_twice_close)
     (simp_all add: example_settings_def example_scene_def example_button_def
       selectedItems_def GraphicsButton_def GraphicsPixmap_def Let_def)

text \<open>
  C2 as the specification states it fails in the code: the button of size (25, 25) at
  (0.1, 0) has the centre x \<open>7093169413108531 / 2 ^ 49\<close> (12.6), and after two
  mirrors on x about the world origin the centre x \<open>1773292353277133 / 2 ^ 47\<close>
  (12.600000000000001), one unit in the last place more.
\<close>

theorem mirror_sel_btns_twice_counterexample:
  "scene_centers (Inr tenth_scene) = [Inr (7093169413108531 / 2 ^ 49, 25 / 2)] \<and>
   scene_centers (mirror_twice example_settings tenth_scene) =
     [Inr (1773292353277133 / 2 ^ 47, 25 / 2)] \<and>
   scene_centers (mirror_twice example_settings tenth_scene) \<noteq>
     scene_centers (Inr tenth_scene)"
  by (simp add: scene_centers_def mirror_twice_def mirror_sel_btns_def tenth_scene_def
      example_button_def GraphicsButton_def example_settings_def selectedItems_def
      MIRROR_ONS_def MIRROR_TYPES_def scene_ref_item_def mirror_center_def
      update_polygon_keeps update_bounding_rect_def qrect_isNull_def
      no_kwargs_def setdefault_def QRect_def Let_def half_25
      tenth_center tenth_moved tenth_moved_center tenth_moved_twice
      tenth_moved_twice_center zero_center zero_moved)

text \<open>
  The example of the specification: the Rect shape at (0, 0) of size (25, 25), mirrored
  on x about the world origin, has its centre moved from (12.5, 12.5) to (-12.5, 12.5)
  and its top left corner at (-25, 0).
\<close>

lemma mirror_sel_btns_example:
  "get_center (Button example_button) = Inr (25 / 2, 25 / 2) \<and>
   (\<exists>b. snd (mirror_sel_btns example_settings
                 \<lparr>scene_items = [Button example_button], ref_item = None\<rparr>) =
          Inr \<lparr>scene_items = [Button b], ref_item = None\<rparr> \<and>
        scenePos b = (- 25, 0) \<and>
        get_center (Button b) = Inr (- (25 / 2), 25 / 2))"
  by (simp add: mirror_sel_btns_def example_settings_def example_button_def
      selectedItems_def GraphicsButton_def Let_def MIRROR_ONS_def MIRROR_TYPES_def
      scene_ref_item_def mirror_center_def no_kwargs_def setdefault_def QRect_def
      update_polygon_keeps update_bounding_rect_def qrect_isNull_def
      half_25 zero_center zero_moved zero_mirrored zero_mirrored_center)

lemma total_center_x_buttons:
  assumes "\<forall>item\<in>set its. is_button item"
  shows "total_center_x its acc =
           Inr (foldl fadd acc [fst c. Inr c \<leftarrow> map get_center its])"
  using assms
proof (induction its arbitrary: acc)
  case Nil
  then show ?case by simp
next
  case (Cons item rest)
  then show ?case by (cases item) (simp_all add: Let_def)
qed

lemma length_center_xs:
  assumes "\<forall>item\<in>set its. is_button item"
  shows "length [fst c. Inr c \<leftarrow> map get_center its] = length its"
  using assms
proof (induction its)
  case Nil
  then show ?case by simp
next
  case (Cons item rest)
  then show ?case by (cases item) (simp_all add: Let_def)
qed

lemma foldl_fadd_error:
  assumes "sum_list (map abs xs) \<le> A" and "length xs \<le> 2 ^ 52"
  shows "\<bar>foldl fadd 0 xs - sum_list xs\<bar> \<le>
           real (length xs) * (A / 4503599627370496 + 2 * (1 / 2 ^ 1075))"
  using assms
proof (induction xs rule: rev_induct)
  case Nil
  then show ?case by simp
next
  case (snoc x xs)
  define n :: real where "n = 1 / 2 ^ 1075"
  define W where "W = A / 4503599627370496 + 2 * n"
  define T where "T = foldl fadd 0 xs"
  define S where "S = sum_list xs"
  define KW where "KW = real (length xs) * W"
  define T' where "T' = fadd T x"
  define E where "E = \<bar>T' - (T + x)\<bar>"
  define D where "D = \<bar>T - S\<bar>"
  define D' where "D' = \<bar>T' - (S + x)\<bar>"
  have n0: "0 \<le> n" by (simp add: n_def)
  have abs0: "0 \<le> sum_list (map abs xs)" by (rule sum_list_nonneg) auto
  have sumA: "sum_list (map abs xs) + \<bar>x\<bar> \<le> A" using snoc.prems(1) by simp
  with abs0 have A0: "0 \<le> A" and xsA: "sum_list (map abs xs) \<le> A" by linarith+
  have W0: "0 \<le> W" using A0 n0 by (simp add: W_def)
  have len: "length xs \<le> 2 ^ 52" using snoc.prems(2) by simp
  have ih: "D \<le> KW"
    using snoc.IH [OF xsA len] by (simp add: D_def KW_def W_def T_def S_def n_def)
  from len have "real (length xs) \<le> real (2 ^ 52)"
    by (simp only: of_nat_le_iff)
  then have "real (length xs) \<le> 4503599627370496" by simp
  then have kw: "KW \<le> 4503599627370496 * W"
    unfolding KW_def using W0 by (rule mult_right_mono)
  have "\<bar>S\<bar> \<le> sum_list (map abs xs)" unfolding S_def by (rule sum_list_abs)
  with sumA have "\<bar>S + x\<bar> \<le> A" by linarith
  then have "\<bar>T + x\<bar> \<le> A + D" unfolding D_def by linarith
  with ih have "\<bar>T + x\<bar> \<le> A + KW" by linarith
  then have e: "E \<le> (A + KW) / 9007199254740992 + n"
    unfolding E_def n_def T'_def fadd_def by (rule fl_error_le)
  have "D' \<le> E + D" unfolding D'_def E_def D_def by linarith
  with e ih kw A0 n0 have "D' \<le> KW + W"
    unfolding W_def by (simp add: field_simps)
  moreover have "real (length (xs @ [x])) * W = KW + W"
    by (simp add: KW_def algebra_simps)
  ultimately have "D' \<le> real (length (xs @ [x])) * W" by simp
  then show ?case
    by (simp add: D'_def W_def n_def T_def S_def T'_def)
qed

lemma float_of_int_length:
  assumes "n \<le> 2 ^ 52"
  shows "float_of_int (int n) = real n"
proof -
  have "int n \<le> 2 ^ 52" using assms by (metis of_nat_le_iff of_nat_numeral of_nat_power)
  then have "\<bar>int n\<bar> < 2 ^ 53" by simp
  then show ?thesis
    using fl_exact [of "int n" 0] by (simp add: float_of_int_def)
qed

lemma average_error:
  assumes "sum_list (map abs xs) \<le> A" and "length xs \<le> 2 ^ 52" and "xs \<noteq> []"
  shows "\<bar>fdiv (foldl fadd 0 xs) (float_of_int (int (length xs))) -
            sum_list xs / real (length xs)\<bar> \<le> A / 2 ^ 51 + 1 / 2 ^ 1073"
    and "\<bar>sum_list xs / real (length xs)\<bar> \<le> A"
proof -
  define n :: real where "n = 1 / 2 ^ 1075"
  define W where "W = A / 4503599627370496 + 2 * n"
  define T where "T = foldl fadd 0 xs"
  define S where "S = sum_list xs"
  define r where "r = real (length xs)"
  define avg where "avg = fdiv T (float_of_int (int (length xs)))"
  define DQ where "DQ = \<bar>T / r - S / r\<bar>"
  define E where "E = \<bar>avg - T / r\<bar>"
  define D where "D = \<bar>avg - S / r\<bar>"
  have n0: "0 \<le> n" by (simp add: n_def)
  have abs0: "0 \<le> sum_list (map abs xs)" by (rule sum_list_nonneg) auto
  with assms(1) have A0: "0 \<le> A" by linarith
  have r1: "1 \<le> r" using assms(3) by (cases xs) (simp_all add: r_def)
  then have r0: "0 < r" by linarith
  have avg: "avg = fl (T / r)"
    by (simp add: avg_def fdiv_def float_of_int_length [OF assms(2)] r_def)
  have "\<bar>T - S\<bar> \<le> r * W"
    using foldl_fadd_error [OF assms(1,2)] by (simp add: T_def S_def r_def W_def n_def)
  then have "\<bar>T - S\<bar> / r \<le> W"
    using r0 by (simp add: pos_divide_le_eq mult.commute)
  moreover have "DQ = \<bar>T - S\<bar> / r"
    using r0 by (simp add: DQ_def diff_divide_distrib [symmetric])
  ultimately have dq: "DQ \<le> W" by simp
  have "\<bar>S\<bar> \<le> sum_list (map abs xs)" unfolding S_def by (rule sum_list_abs)
  with assms(1) have SA: "\<bar>S\<bar> \<le> A" by linarith
  have "\<bar>S\<bar> * 1 \<le> \<bar>S\<bar> * r" by (rule mult_left_mono) (use r1 in simp_all)
  then have "\<bar>S\<bar> / r \<le> \<bar>S\<bar>" using r0 by (simp add: pos_divide_le_eq)
  with SA have mean: "\<bar>S / r\<bar> \<le> A" using r0 by simp
  then have "\<bar>T / r\<bar> \<le> A + DQ" unfolding DQ_def by linarith
  with dq have "\<bar>T / r\<bar> \<le> A + W" by linarith
  then have e: "E \<le> (A + W) / 9007199254740992 + n"
    unfolding E_def avg n_def by (rule fl_error_le)
  have "D \<le> E + DQ" unfolding D_def E_def DQ_def by linarith
  with e dq A0 n0 have "D \<le> A / 2251799813685248 + 4 * n"
    unfolding W_def by (simp add: field_simps)
  moreover have "4 * n = 1 / 2 ^ 1073" by (simp add: n_def)
  ultimately have "D \<le> A / 2 ^ 51 + 1 / 2 ^ 1073" by simp
  then show "\<bar>fdiv (foldl fadd 0 xs) (float_of_int (int (length xs))) -
            sum_list xs / real (length xs)\<bar> \<le> A / 2 ^ 51 + 1 / 2 ^ 1073"
    unfolding D_def avg_def T_def S_def r_def .
  from mean show "\<bar>sum_list xs / real (length xs)\<bar> \<le> A"
    unfolding S_def r_def .
qed

lemma aligned_center_close:
  assumes "length xs \<le> 2 ^ 52" and "xs \<noteq> []"
  shows "\<bar>fadd (fsub (fdiv (foldl fadd 0 xs) (float_of_int (int (length xs)))) h) h -
            sum_list xs / real (length xs)\<bar> \<le> center_error (sum_list (map abs xs)) h"
proof -
  define n :: real where "n = 1 / 2 ^ 1075"
  define A where "A = sum_list (map abs xs)"
  define H where "H = \<bar>h\<bar>"
  define avg where "avg = fdiv (foldl fadd 0 xs) (float_of_int (int (length xs)))"
  define m where "m = sum_list xs / real (length xs)"
  define c where "c = fadd (fsub avg h) h"
  define D where "D = \<bar>avg - m\<bar>"
  define E where "E = \<bar>c - avg\<bar>"
  define F where "F = \<bar>c - m\<bar>"
  have n0: "0 \<le> n" by (simp add: n_def)
  have A0: "0 \<le> A" unfolding A_def by (rule sum_list_nonneg) auto
  have H0: "0 \<le> H" by (simp add: H_def)
  have A: "sum_list (map abs xs) \<le> A" by (simp add: A_def)
  have d: "D \<le> A / 2251799813685248 + 4 * n"
    using average_error(1) [OF A assms] by (simp add: D_def avg_def m_def n_def)
  have "\<bar>m\<bar> \<le> A"
    using average_error(2) [OF A assms] by (simp add: m_def)
  then have "\<bar>avg\<bar> + \<bar>h\<bar> \<le> A + D + H" unfolding D_def H_def by linarith
  then have e: "E \<le> 3 * (A + D + H) / 9007199254740992 + 3 * n"
    unfolding E_def c_def n_def using center_round_trip [of avg h "A + D + H"] by simp
  have "F \<le> E + D" unfolding F_def E_def D_def by linarith
  with e d A0 H0 n0 have "F \<le> (A + H) / 1125899906842624 + 8 * n"
    by (simp add: field_simps)
  moreover have "8 * n = 1 / 2 ^ 1072" by (simp add: n_def)
  ultimately have "F \<le> (\<bar>A\<bar> + H) / 2 ^ 50 + 1 / 2 ^ 1072" using A0 by simp
  then show ?thesis
    unfolding F_def c_def avg_def m_def A_def H_def center_error_def .
qed

lemma align_item_x_button:
  "align_item_x x (Button b) =
     Inr (Button (b\<lparr>scenePos := (fsub x (fst (half_extent (Button b))),
                                   snd (scenePos b))\<rparr>))"
  by (simp add: align_item_x_def Let_def)

text \<open>
  C3. With no reference item and a selection that is not empty and holds buttons only,
  at most \<open>2 ^ 52\<close> of them with centres whose magnitudes sum up to at most
  \<open>2 ^ 1000\<close> (no sum reaches the largest double), \<open>align_by_x\<close> returns; an item
  that is not selected is as it was, and the centre of every selected button then has an
  x coordinate within \<open>center_error\<close> of the arithmetic mean of the x coordinates
  that the centres of the selected buttons had before (\<open>selected_center_xs\<close>): the
  mean is reached up to the rounding of the sum, of the division and of the
  subtraction and addition of half the width, not exactly.
\<close>

theorem align_by_x_mean_close:
  assumes "ref_item s = None"
    and "selectedItems s \<noteq> []"
    and "\<forall>item\<in>set (selectedItems s). is_button item"
    and "length (selectedItems s) \<le> 2 ^ 52"
    and "sum_list (map abs (selected_center_xs s)) \<le> 2 ^ 1000"
  shows "\<exists>s'. align_by_x s = Inr s' \<and>
           length (scene_items s') = length (scene_items s) \<and>
           (\<forall>i<length (scene_items s).
              if item_isSelected (scene_items s ! i)
              then (\<exists>c. get_center (scene_items s' ! i) = Inr c \<and>
                      \<bar>fst c - mean_center_x s\<bar> \<le>
                        center_error (sum_list (map abs (selected_center_xs s)))
                          (fst (half_extent (scene_items s ! i))))
              else scene_items s' ! i = scene_items s ! i)"
proof -
  define xs where "xs = selected_center_xs s"
  define avg where "avg = fdiv (foldl fadd 0 xs) (float_of_int (int (length xs)))"
  have len: "length xs = length (selectedItems s)"
    unfolding xs_def selected_center_xs_def by (rule length_center_xs) (rule assms(3))
  have xs: "length xs \<le> 2 ^ 52" "xs \<noteq> []"
    using len assms(2,4) by auto
  have total: "total_center_x (selectedItems s) 0 = Inr (foldl fadd 0 xs)"
    using total_center_x_buttons [OF assms(3), of 0]
    by (simp add: xs_def selected_center_xs_def)
  let ?R = "\<lambda>item item'. \<exists>c. get_center item' = Inr c \<and>
              \<bar>fst c - sum_list xs / real (length xs)\<bar> \<le>
                center_error (sum_list (map abs xs)) (fst (half_extent item))"
  have "\<And>item. item \<in> set (scene_items s) \<Longrightarrow> item_isSelected item \<Longrightarrow>
          \<exists>item'. align_item_x avg item = Inr item' \<and> ?R item item'"
  proof -
    fix item
    assume "item \<in> set (scene_items s)" "item_isSelected item"
    with assms(3) have "is_button item" by (simp add: selectedItems_def)
    then obtain b where "item = Button b" by (cases item) auto
    then show "\<exists>item'. align_item_x avg item = Inr item' \<and> ?R item item'"
      using aligned_center_close [OF xs, of "fst (half_extent (Button b))"]
      by (simp add: align_item_x_button Let_def avg_def)
  qed
  from for_selected_rel [of "scene_items s" "align_item_x avg" ?R, OF this]
  obtain its' where its': "for_selected (align_item_x avg) (scene_items s) = Inr its'"
    "list_all2 (\<lambda>item item'. if item_isSelected item then ?R item item'
        else item' = item) (scene_items s) its'"
    by blast
  define s' where "s' = s\<lparr>scene_items := its'\<rparr>"
  have si: "scene_items s' = its'" by (simp add: s'_def)
  have 1: "align_by_x s = Inr s'"
    using assms(1,2) total its'(1) len
    by (simp add: align_by_x_def scene_ref_item_def Let_def avg_def s'_def)
  have 2: "length (scene_items s') = length (scene_items s)"
    unfolding si using its'(2) by (simp add: list_all2_lengthD)
  have 3: "\<forall>i<length (scene_items s).
      if item_isSelected (scene_items s ! i)
      then ?R (scene_items s ! i) (scene_items s' ! i)
      else scene_items s' ! i = scene_items s ! i"
    unfolding si
  proof (intro allI impI)
    fix i
    assume "i < length (scene_items s)"
    from list_all2_nthD [OF its'(2) this]
    show "if item_isSelected (scene_items s ! i) then ?R (scene_items s ! i) (its' ! i)
      else its' ! i = scene_items s ! i" .
  qed
  from 1 2 3 show ?thesis
    unfolding xs_def mean_center_x_def by blast
qed

theorem align_by_x_mean_close_witness:
  "\<exists>s'. align_by_x example_scene = Inr s' \<and>
         length (scene_items s') = length (scene_items example_scene) \<and>
         (\<forall>i<length (scene_items example_scene).
            if item_isSelected (scene_items example_scene ! i)
            then (\<exists>c. get_center (scene_items s' ! i) = Inr c \<and>
                    \<bar>fst c - mean_center_x example_scene\<bar> \<le>
                      center_error (sum_list (map abs (selected_center_xs example_scene)))
                        (fst (half_extent (scene_items example_scene ! i))))
            else scene_items s' ! i = scene_items example_scene ! i)"
  by (rule align_by_x_mean_close)
     (simp_all add: example_scene_def example_button_def selectedItems_def
       selected_center_xs_def GraphicsButton_def GraphicsPixmap_def Let_def
       no_kwargs_def setdefault_def QRect_def half_25 zero_center ten_center)

text \<open>
  C3 as the specification states it fails in the code: of two selected buttons with
  the centres x -17.5 and \<open>- 4067313413468979 / 2 ^ 48\<close> (-14.45), the mean is
  \<open>- 8993125505905459 / 2 ^ 49\<close> (-15.975), and \<open>align_by_x\<close> leaves both with
  the centre x \<open>- 2248281376476365 / 2 ^ 47\<close> (-15.975000000000001), one unit in the
  last place off the mean.
\<close>

theorem align_by_x_mean_counterexample:
  "ref_item uneven_scene = None \<and>
   selectedItems uneven_scene = scene_items uneven_scene \<and>
   selected_center_xs uneven_scene = [- 35 / 2, - 4067313413468979 / 2 ^ 48] \<and>
   mean_center_x uneven_scene = - 8993125505905459 / 2 ^ 49 \<and>
   scene_centers (align_by_x uneven_scene) =
     [Inr (- 2248281376476365 / 2 ^ 47, 25 / 2), Inr (- 2248281376476365 / 2 ^ 47, 15)] \<and>
   scene_centers (align_by_x uneven_scene) \<noteq>
     [Inr (mean_center_x uneven_scene, 25 / 2), Inr (mean_center_x uneven_scene, 15)]"
  by (simp add: scene_centers_def align_by_x_def align_item_x_def uneven_scene_def
      mean_center_x_def selected_center_xs_def
      example_button_def GraphicsButton_def selectedItems_def scene_ref_item_def
      update_polygon_keeps no_kwargs_def setdefault_def QRect_def Let_def
      half_25 half_30 float_of_int_2 zero_center zero_center_15
      uneven_center_0 uneven_center_1 uneven_total_0 uneven_total uneven_average
      uneven_aligned_0 uneven_aligned_1 uneven_aligned_center_0 uneven_aligned_center_1)

lemma align_by_x_nothing_selected:
  assumes "ref_item s = None" and "selectedItems s = []"
  shows "align_by_x s = Inl ZeroDivisionError"
  using assms by (simp add: align_by_x_def scene_ref_item_def)

lemma align_by_y_nothing_selected:
  assumes "ref_item s = None" and "selectedItems s = []"
  shows "align_by_y s = Inl ZeroDivisionError"
  using assms by (simp add: align_by_y_def scene_ref_item_def)

lemma for_selected_nothing_selected:
  "filter item_isSelected its = [] \<Longrightarrow> for_selected body its = Inr its"
  by (induction its) (auto split: if_splits)

lemma nothing_selected_guarded:
  assumes "selectedItems s = []"
  shows "snd (mirror_sel_btns settings s) = Inr s"
    and "bring_forward s = Inr s"
    and "send_backward s = Inr s"
    and "scene_ref_item s = Some (Button r) \<Longrightarrow> align_by_x s = Inr s"
    and "scene_ref_item s = Some (Button r) \<Longrightarrow> align_by_y s = Inr s"
  using assms for_selected_nothing_selected [of "scene_items s"]
  by (simp_all add: mirror_sel_btns_def bring_forward_def send_backward_def
      align_by_x_def align_by_y_def selectedItems_def Let_def)

text \<open>
  C6 fails in the code for \<open>align_by_x\<close> and \<open>align_by_y\<close>. The other operations
  return at once when nothing is selected (\<open>nothing_selected_guarded\<close>), and so do
  the two when the scene has a reference item. Without a reference item they divide the
  sum of the centres by the number of selected items, which is zero: here on a scene of
  one button that is not selected.
\<close>

theorem align_by_x_nothing_selected_raises:
  "selectedItems \<lparr>scene_items = [Button (GraphicsButton None no_kwargs)],
                   ref_item = None\<rparr> = [] \<and>
   align_by_x \<lparr>scene_items = [Button (GraphicsButton None no_kwargs)],
                ref_item = None\<rparr> = Inl ZeroDivisionError \<and>
   align_by_y \<lparr>scene_items = [Button (GraphicsButton None no_kwargs)],
                ref_item = None\<rparr> = Inl ZeroDivisionError"
  by (simp add: align_by_x_def align_by_y_def scene_ref_item_def selectedItems_def
      GraphicsButton_def Let_def)

section \<open>Properties of the XML export and import\<close>

lemma then_do_simps [simp]:
  "then_do (Inr v) f = f v"
  "then_do (Inl e) f = Inl e"
  by (simp_all add: then_do_def)

lemma for_each_append:
  "for_each body (xs @ ys) st = then_do (for_each body xs st) (for_each body ys)"
  by (induction xs arbitrary: st) (auto simp: then_do_def split: sum.splits)




lemma pos_element_sel [simp]:
  "tag (pos_element name p z) = name"
  "getchildren (pos_element name p z) = []"
  by (simp_all add: pos_element_def)












subsection \<open>What the parser reads back\<close>



























text \<open>
  And a label is not always read back as it was: a tab in the text of a button comes
  back as a blank.
\<close>

lemma read_value_tab_example:
  "read_value [CHR ''a'', CHR 0x09, CHR ''b''] = Some ''a b''"
  by (simp add: read_value_def xml_char_def xml_space_def)

lemma load_xml_file_missing:
  assumes "filename \<noteq> []" and "fs filename = None"
  shows "load_xml_file et_parse working_dir filename fs tab_widget =
           ([''File does not exist: '' @ filename], Inl FileNotFoundError)"
  using assms by (simp add: load_xml_file_def)

text \<open>
  C7 fails in the code. On a path that does not exist \<open>load_xml_file\<close> prints its
  message and then goes on to parse the file, which raises: the \<open>return\<close> that
  \<open>replace_pixmap\<close> has after the same test is missing.
\<close>

theorem load_xml_file_missing_file_raises:
  "load_xml_file et_parse working_dir ''missing.xml'' (\<lambda>path. None) tab_widget =
     ([''File does not exist: missing.xml''], Inl FileNotFoundError)"
  by (simp add: load_xml_file_def)

text \<open>
  C8. An image entry whose file path is not on the disk, with its position element
  holding readable numbers, does not raise: the loop over the images goes on to the
  remaining entries with a new image item in the scene that shows the placeholder
  \<open>lost_image.png\<close> of the config folder, is marked as not a good image, and has
  the stored position and z value.
\<close>

theorem load_image_missing_path:
  assumes "map_of (attrib img) ''filepath'' = Some path"
    and "fs path = None"
    and "getchildren img = [Element ''pos'' pos_attrs pos_children]"
    and "map_of pos_attrs ''x'' = Some sx" and "py_float sx = Inr x"
    and "map_of pos_attrs ''y'' = Some sy" and "py_float sy = Inr y"
    and "map_of pos_attrs ''z'' = Some sz" and "py_float sz = Inr z"
  shows "for_each (load_image working_dir fs) (img # images) (items, zv) =
           for_each (load_image working_dir fs) images
             (items @
              [Pixmap \<lparr>pm_scenePos = (x, y), pm_zValue = z, pm_isSelected = False,
                       good_img = False,
                       file_path = os_path_join (os_path_join working_dir ''config'')
                                     ''lost_image.png''\<rparr>],
              Some z)"
  using assms
  by (simp add: load_image_def attrib_get_def EXPORT_IMG_ATTRS_def load_image_attr_def
      load_pos_def GraphicsPixmap_def CONFIG_FOLDER_def LOST_IMAGE_def Let_def)

lemma py_float_examples:
  "py_float ''3.00'' = Inr 3" "py_float ''-4.50'' = Inr (- (9 / 2))"
  "py_float ''-1.00'' = Inr (- 1)"
  by (simp_all add: py_float_def split_sign_def digit_val_def upt_conv_Cons)

theorem load_image_missing_path_witness:
  "for_each (load_image ''/picker_tool'' (\<lambda>path. None :: xml option))
     (example_image_entry # [example_image_entry]) ([], None) =
   for_each (load_image ''/picker_tool'' (\<lambda>path. None :: xml option))
     [example_image_entry]
     ([] @
      [Pixmap \<lparr>pm_scenePos = (3, - (9 / 2)), pm_zValue = - 1, pm_isSelected = False,
               good_img = False,
               file_path = os_path_join (os_path_join ''/picker_tool'' ''config'')
                             ''lost_image.png''\<rparr>],
      Some (- 1))"
  by (rule load_image_missing_path [where path = "''/lost/front.png''"
        and pos_attrs = "[(''x'', ''3.00''), (''y'', ''-4.50''), (''z'', ''-1.00'')]"
        and pos_children = "[]" and sx = "''3.00''" and sy = "''-4.50''" and sz = "''-1.00''"])
     (simp_all add: example_image_entry_def py_float_examples)

text \<open>
  A whole file with two such entries loads to the end.
\<close>

lemma load_xml_file_example:
  "load_xml_file Inr ''/picker_tool'' ''picker.xml''
     [''picker.xml'' \<mapsto>
        Element ''root'' []
          [Element ''default'' []
             [Element ''SHAPES'' [] [],
              Element ''IMAGES'' [] [example_image_entry, example_image_entry]]]] [] =
   ([''Loaded file: picker.xml''],
    Inr [(''default'',
          \<lparr>scene_items =
             [Pixmap \<lparr>pm_scenePos = (3, - (9 / 2)), pm_zValue = - 1, pm_isSelected = False,
                      good_img = False, file_path = ''/picker_tool/config/lost_image.png''\<rparr>,
              Pixmap \<lparr>pm_scenePos = (3, - (9 / 2)), pm_zValue = - 1, pm_isSelected = False,
                      good_img = False, file_path = ''/picker_tool/config/lost_image.png''\<rparr>],
           ref_item = None\<rparr>)])"
  by (simp add: load_xml_file_def load_tab_def load_category_def load_image_def
      load_image_attr_def load_pos_def attrib_get_def example_image_entry_def
      XML_BTN_CATEGORY_def XML_IMG_CATEGORY_def EXPORT_IMG_ATTRS_def py_float_examples
      GraphicsPixmap_def os_path_join_def CONFIG_FOLDER_def LOST_IMAGE_def Let_def)

end
